theory Spec2Isabelle
  imports Complex_Main "HOL-Library.Sublist"
begin

section \<open>Python strings\<close>

text \<open>
  Python \<open>str\<close> values are modelled as \<open>string\<close>, holding the UTF-8 bytes of the text.
  The source tests containment, prefixes and suffixes, slices between two found positions,
  concatenates, and strips whitespace; containment, prefixes, suffixes and slices at found
  positions agree on code points and on UTF-8 bytes, and \<open>strip\<close> below removes whole
  encoded characters.
\<close>

definition startswith :: "string \<Rightarrow> string \<Rightarrow> bool" where
  "startswith s p = prefix p s"

definition endswith :: "string \<Rightarrow> string \<Rightarrow> bool" where
  "endswith s p = suffix p s"

text \<open>\<open>s.find(needle)\<close>: the least index at which \<open>needle\<close> occurs, \<open>None\<close> when it does not.\<close>

fun py_find :: "string \<Rightarrow> string \<Rightarrow> nat option" where
  "py_find needle [] = (if needle = [] then Some 0 else None)"
| "py_find needle (c # cs) =
     (if prefix needle (c # cs) then Some 0 else map_option Suc (py_find needle cs))"

text \<open>\<open>needle in s\<close>.\<close>

definition contains :: "string \<Rightarrow> string \<Rightarrow> bool" where
  "contains needle s = (py_find needle s \<noteq> None)"

text \<open>\<open>s.index(needle, start)\<close>; \<open>None\<close> stands for the \<open>ValueError\<close>.\<close>

definition py_index_from :: "string \<Rightarrow> string \<Rightarrow> nat \<Rightarrow> nat option" where
  "py_index_from s needle start = map_option (\<lambda>i. i + start) (py_find needle (drop start s))"

text \<open>\<open>s[start:end]\<close> for non-negative bounds.\<close>

definition slice :: "string \<Rightarrow> nat \<Rightarrow> nat \<Rightarrow> string" where
  "slice s start end = take (end - start) (drop start s)"

text \<open>
  The code points for which \<open>str.isspace\<close> holds, each as its UTF-8 bytes: U+0009 to U+000D,
  U+001C to U+0020, U+0085, U+00A0, U+1680, U+2000 to U+200A, U+2028, U+2029, U+202F, U+205F
  and U+3000.
\<close>

definition whitespace :: "string list" where
  "whitespace =
     [ [CHR 0x09], [CHR 0x0A], [CHR 0x0B], [CHR 0x0C], [CHR 0x0D],
      [CHR 0x1C], [CHR 0x1D], [CHR 0x1E], [CHR 0x1F], [CHR 0x20],
      [CHR 0xC2, CHR 0x85], [CHR 0xC2, CHR 0xA0], [CHR 0xE1, CHR 0x9A, CHR 0x80],
      [CHR 0xE2, CHR 0x80, CHR 0x80], [CHR 0xE2, CHR 0x80, CHR 0x81], [CHR 0xE2, CHR 0x80, CHR 0x82],
      [CHR 0xE2, CHR 0x80, CHR 0x83], [CHR 0xE2, CHR 0x80, CHR 0x84], [CHR 0xE2, CHR 0x80, CHR 0x85],
      [CHR 0xE2, CHR 0x80, CHR 0x86], [CHR 0xE2, CHR 0x80, CHR 0x87], [CHR 0xE2, CHR 0x80, CHR 0x88],
      [CHR 0xE2, CHR 0x80, CHR 0x89], [CHR 0xE2, CHR 0x80, CHR 0x8A], [CHR 0xE2, CHR 0x80, CHR 0xA8],
      [CHR 0xE2, CHR 0x80, CHR 0xA9], [CHR 0xE2, CHR 0x80, CHR 0xAF], [CHR 0xE2, CHR 0x81, CHR 0x9F],
      [CHR 0xE3, CHR 0x80, CHR 0x80] ]"

text \<open>\<open>c.isspace()\<close> for one character \<open>c\<close>, given as its bytes.\<close>

definition isspace :: "string \<Rightarrow> bool" where
  "isspace c = (c \<in> set whitespace)"

text \<open>
  Removing the leading characters that satisfy \<open>space\<close>; a character takes one, two or three
  bytes here.
\<close>

fun strip_front :: "(string \<Rightarrow> bool) \<Rightarrow> string \<Rightarrow> string" where
  "strip_front space [] = []"
| "strip_front space (c # cs) =
     (if space [c] then strip_front space cs
      else if space (c # take 1 cs) then strip_front space (drop 1 cs)
      else if space (c # take 2 cs) then strip_front space (drop 2 cs)
      else c # cs)"

definition lstrip :: "string \<Rightarrow> string" where
  "lstrip s = strip_front isspace s"

text \<open>At the end of the text the bytes of a character are met last byte first.\<close>

definition rstrip :: "string \<Rightarrow> string" where
  "rstrip s = rev (strip_front (\<lambda>c. isspace (rev c)) (rev s))"

text \<open>\<open>s.strip()\<close>: leading and trailing whitespace removed.\<close>

definition strip :: "string \<Rightarrow> string" where
  "strip s = rstrip (lstrip s)"

text \<open>\<open>sep.join(xs)\<close>.\<close>

fun join :: "string \<Rightarrow> string list \<Rightarrow> string" where
  "join sep [] = []"
| "join sep [x] = x"
| "join sep (x # y # ys) = x @ sep @ join sep (y # ys)"

text \<open>Decimal rendering of an integer, as \<open>str(n)\<close> and an f-string do.\<close>

definition digit_char :: "nat \<Rightarrow> char" where
  "digit_char d = char_of (48 + d)"

fun show_nat :: "nat \<Rightarrow> string" where
  "show_nat n = (if n < 10 then [digit_char n] else show_nat (n div 10) @ [digit_char (n mod 10)])"

definition show_int :: "int \<Rightarrow> string" where
  "show_int i = (if i < 0 then CHR ''-'' # show_nat (nat (- i)) else show_nat (nat i))"

text \<open>The emoji that open the bot's messages, as UTF-8.\<close>

definition cross_mark :: string where
  "cross_mark = [CHR 0xE2, CHR 0x9D, CHR 0x8C]"

definition check_mark :: string where
  "check_mark = [CHR 0xE2, CHR 0x9C, CHR 0x85]"

definition repeat_mark :: string where
  "repeat_mark = [CHR 0xF0, CHR 0x9F, CHR 0x94, CHR 0x81]"

definition info_mark :: string where
  "info_mark = [CHR 0xE2, CHR 0x84, CHR 0xB9, CHR 0xEF, CHR 0xB8, CHR 0x8F]"

section \<open>JSON values and the library calls\<close>

text \<open>
  What \<open>json.load\<close> returns. \<open>JNull\<close> is Python's \<open>None\<close>; an object is a \<open>dict\<close>,
  kept as an association list read with \<open>map_of\<close>.
\<close>

datatype json =
    JNull
  | JBool bool
  | JInt int
  | JFloat real
  | JStr string
  | JArr "json list"
  | JObj "(string \<times> json) list"

text \<open>Python truthiness, as in \<open>if url:\<close>.\<close>

fun truthy :: "json \<Rightarrow> bool" where
  "truthy JNull = False"
| "truthy (JBool b) = b"
| "truthy (JInt i) = (i \<noteq> 0)"
| "truthy (JFloat r) = (r \<noteq> 0)"
| "truthy (JStr s) = (s \<noteq> [])"
| "truthy (JArr xs) = (xs \<noteq> [])"
| "truthy (JObj kvs) = (kvs \<noteq> [])"

record image =
  format :: string
  width :: nat
  height :: nat

record response =
  status_code :: int
  content :: string

text \<open>
  The library functions the scripts call, taken as parameters: \<open>json.load\<close>/\<open>json.loads\<close>
  (\<open>Inl\<close> carries the text of the exception), \<open>hashlib.sha256(...).hexdigest()\<close>,
  \<open>PIL.Image.open\<close>, \<open>requests.get(url, timeout=20)\<close>, and the text Python gives a float,
  list or dict inside an f-string.
\<close>

record platform =
  json_parse :: "string \<Rightarrow> string + json"
  sha256_hex :: "string \<Rightarrow> string"
  image_open :: "string \<Rightarrow> string + image"
  requests_get :: "json \<Rightarrow> string + response"
  py_repr :: "json \<Rightarrow> string"

text \<open>\<open>f"{v}"\<close> for a value read from a manifest.\<close>

definition format_value :: "platform \<Rightarrow> json \<Rightarrow> string" where
  "format_value P v =
     (case v of
        JStr s \<Rightarrow> s
      | JNull \<Rightarrow> ''None''
      | JBool b \<Rightarrow> (if b then ''True'' else ''False'')
      | JInt i \<Rightarrow> show_int i
      | _ \<Rightarrow> py_repr P v)"

text \<open>An exception that no handler of the scripts catches; the process ends with status 1.\<close>

datatype exn = AttributeError | TypeError | ValueError | UnknownObjectException

section \<open>The review host and the checkout\<close>

record comment =
  user :: string
  body :: "string option"

text \<open>
  One pull request as the host holds it. \<open>merge_error\<close> and \<open>edit_error\<close> are the host's
  answer to a merge or close request (\<open>Some e\<close>: the call raises \<open>e\<close>); \<open>merge_calls\<close> and
  \<open>close_calls\<close> count the requests made.
\<close>

record thread =
  labels :: "string list"
  comments :: "comment list"
  files :: "string list"
  merged :: bool
  closed :: bool
  merge_calls :: nat
  close_calls :: nat
  merge_error :: "string option"
  edit_error :: "string option"

record world =
  threads :: "int \<rightharpoonup> thread"
  fs :: "string \<rightharpoonup> string"

text \<open>
  \<open>GITHUB_REF\<close>, read as the scripts read it: not under \<open>refs/pull/\<close>, under it with a
  number in third place, or under it with something \<open>int()\<close> rejects.
\<close>

datatype github_ref = OtherRef | PullRef int | MalformedPullRef

text \<open>
  The environment of one run: the variables and the event payload. \<open>event_comment\<close> is the
  payload's comment as (body, user login); \<open>token_user\<close> is the account that comments posted
  with the token belong to.
\<close>

record env =
  github_token :: "string option"
  github_repository :: "string option"
  bot_user :: "string option"
  github_ref :: github_ref
  issue_number :: "int option"
  pull_request_number :: "int option"
  event_comment :: "(string \<times> string) option"
  github_event_comment_body :: string
  github_actor :: string
  token_user :: string

datatype exit = Exited int | Uncaught exn

fun status :: "exit \<Rightarrow> int" where
  "status (Exited n) = n"
| "status (Uncaught e) = 1"

definition upd_thread :: "int \<Rightarrow> (thread \<Rightarrow> thread) \<Rightarrow> world \<Rightarrow> world" where
  "upd_thread n f w =
     (case threads w n of None \<Rightarrow> w | Some t \<Rightarrow> w\<lparr>threads := (threads w)(n \<mapsto> f t)\<rparr>)"

definition get_labels :: "int \<Rightarrow> world \<Rightarrow> string list" where
  "get_labels n w = (case threads w n of None \<Rightarrow> [] | Some t \<Rightarrow> labels t)"

definition get_comments :: "int \<Rightarrow> world \<Rightarrow> comment list" where
  "get_comments n w = (case threads w n of None \<Rightarrow> [] | Some t \<Rightarrow> comments t)"

definition get_files :: "int \<Rightarrow> world \<Rightarrow> string list" where
  "get_files n w = (case threads w n of None \<Rightarrow> [] | Some t \<Rightarrow> files t)"

definition create_comment :: "env \<Rightarrow> int \<Rightarrow> string \<Rightarrow> world \<Rightarrow> world" where
  "create_comment e n text =
     upd_thread n (\<lambda>t. t\<lparr>comments := comments t @ [\<lparr>user = token_user e, body = Some text\<rparr>]\<rparr>)"

definition remove_from_labels :: "int \<Rightarrow> string \<Rightarrow> world \<Rightarrow> world" where
  "remove_from_labels n l = upd_thread n (\<lambda>t. t\<lparr>labels := filter (\<lambda>x. x \<noteq> l) (labels t)\<rparr>)"

definition add_to_labels :: "int \<Rightarrow> string \<Rightarrow> world \<Rightarrow> world" where
  "add_to_labels n l =
     upd_thread n (\<lambda>t. t\<lparr>labels := (if l \<in> set (labels t) then labels t else labels t @ [l])\<rparr>)"

text \<open>The changed files that are manifests: under \<open>manifests/\<close> and ending in \<open>.json\<close>.\<close>

definition is_manifest :: "string \<Rightarrow> bool" where
  "is_manifest f = (startswith f ''manifests/'' \<and> endswith f ''.json'')"

definition not_set :: "string option \<Rightarrow> bool" where
  "not_set v = (v = None \<or> v = Some [])"

section \<open>validate_manifest.py\<close>

definition ICON_MAX_SIZE :: nat where
  "ICON_MAX_SIZE = 3072"

definition ICON_WIDTH :: nat where
  "ICON_WIDTH = 32"

definition ICON_HEIGHT :: nat where
  "ICON_HEIGHT = 32"

definition REQUIRED_FIELDS :: "string list" where
  "REQUIRED_FIELDS =
     [''package'', ''name'', ''author'', ''version'', ''category'', ''description'',
      ''url'', ''sha256'', ''api_level'', ''permissions'', ''min_os_version'']"

definition sha256_bytes :: "platform \<Rightarrow> string \<Rightarrow> string" where
  "sha256_bytes P data = sha256_hex P data"

text \<open>
  \<open>get_pr_number\<close>: the payload's \<open>pull_request.number\<close>, else the number in \<open>GITHUB_REF\<close>.
  The \<open>int()\<close> of the reference is not guarded here.
\<close>

definition get_pr_number :: "env \<Rightarrow> exn + int option" where
  "get_pr_number e =
     (case pull_request_number e of
        Some n \<Rightarrow> Inr (Some n)
      | None \<Rightarrow>
          (case github_ref e of
             PullRef n \<Rightarrow> Inr (Some n)
           | MalformedPullRef \<Rightarrow> Inl ValueError
           | OtherRef \<Rightarrow> Inr None))"

text \<open>The messages of the validator, one definition for each f-string of the source.\<close>

definition msg_file_not_found :: "string \<Rightarrow> string" where
  "msg_file_not_found manifest_path = cross_mark @ '' '' @ manifest_path @ '': file not found''"

definition msg_invalid_json :: "string \<Rightarrow> string \<Rightarrow> string" where
  "msg_invalid_json manifest_path e =
     cross_mark @ '' '' @ manifest_path @ '': invalid JSON ('' @ e @ '')''"

definition msg_missing_field :: "string \<Rightarrow> string \<Rightarrow> string" where
  "msg_missing_field manifest_path field =
     cross_mark @ '' '' @ manifest_path @ '': missing required field '' @ [CHR 0x27] @ field @ [CHR 0x27]"

definition msg_icon_missing :: "string \<Rightarrow> string \<Rightarrow> string" where
  "msg_icon_missing manifest_path icon_path =
     cross_mark @ '' '' @ manifest_path @ '': icon file missing ('' @ icon_path @ '')''"

definition msg_icon_too_big :: "string \<Rightarrow> string" where
  "msg_icon_too_big icon_path = cross_mark @ '' '' @ icon_path @ '': file size exceeds 2048 bytes''"

definition msg_icon_not_png :: "string \<Rightarrow> string" where
  "msg_icon_not_png icon_path = cross_mark @ '' '' @ icon_path @ '': icon is not PNG''"

definition msg_icon_dimensions :: "string \<Rightarrow> string" where
  "msg_icon_dimensions icon_path = cross_mark @ '' '' @ icon_path @ '': icon size must be 32x32''"

definition msg_icon_unreadable :: "string \<Rightarrow> string \<Rightarrow> string" where
  "msg_icon_unreadable icon_path e =
     cross_mark @ '' '' @ icon_path @ '': failed to read icon ('' @ e @ '')''"

definition msg_http_status :: "string \<Rightarrow> int \<Rightarrow> string" where
  "msg_http_status manifest_path code =
     cross_mark @ '' '' @ manifest_path @ '': URL returned HTTP '' @ show_int code"

definition msg_sha256_mismatch :: "string \<Rightarrow> string \<Rightarrow> string \<Rightarrow> string" where
  "msg_sha256_mismatch manifest_path declared actual =
     cross_mark @ '' '' @ manifest_path @ '': sha256 mismatch (expected '' @ declared
       @ '', got '' @ actual @ '')''"

definition msg_download_failed :: "string \<Rightarrow> string \<Rightarrow> string" where
  "msg_download_failed manifest_path e =
     cross_mark @ '' '' @ manifest_path @ '': failed to download file ('' @ e @ '')''"

text \<open>\<open>d.get(k)\<close> on a dict: the value, or \<open>None\<close>.\<close>

definition dict_get :: "(string \<times> json) list \<Rightarrow> string \<Rightarrow> json" where
  "dict_get kvs k = (case map_of kvs k of None \<Rightarrow> JNull | Some v \<Rightarrow> v)"

text \<open>The loop over \<open>REQUIRED_FIELDS\<close> on a dict: \<open>field not in manifest\<close> tests the keys.\<close>

fun check_fields :: "string \<Rightarrow> (string \<times> json) list \<Rightarrow> string list \<Rightarrow> string list" where
  "check_fields manifest_path kvs [] = []"
| "check_fields manifest_path kvs (field # rest) =
     (if field \<notin> fst ` set kvs then [msg_missing_field manifest_path field] else [])
     @ check_fields manifest_path kvs rest"

definition icon_path_of :: "platform \<Rightarrow> json \<Rightarrow> string" where
  "icon_path_of P package = ''icons/'' @ format_value P package @ ''.png''"

text \<open>
  The icon block. The size test comes first and its defect stays in the list when
  \<open>Image.open\<close> raises afterwards; the format and the dimension tests are two separate \<open>if\<close>s.
\<close>

definition check_icon :: "platform \<Rightarrow> (string \<rightharpoonup> string) \<Rightarrow> string \<Rightarrow> json \<Rightarrow> string list" where
  "check_icon P files_on_disk manifest_path package =
     (let icon_path = icon_path_of P package in
      case files_on_disk icon_path of
        None \<Rightarrow> [msg_icon_missing manifest_path icon_path]
      | Some data \<Rightarrow>
          (if length data > ICON_MAX_SIZE then [msg_icon_too_big icon_path] else [])
          @ (case image_open P data of
               Inl e \<Rightarrow> [msg_icon_unreadable icon_path e]
             | Inr img \<Rightarrow>
                 (if format img \<noteq> ''PNG'' then [msg_icon_not_png icon_path] else [])
                 @ (if width img \<noteq> ICON_WIDTH \<or> height img \<noteq> ICON_HEIGHT
                    then [msg_icon_dimensions icon_path] else [])))"

text \<open>The download block, entered only when \<open>url\<close> is truthy.\<close>

definition check_download :: "platform \<Rightarrow> string \<Rightarrow> json \<Rightarrow> json \<Rightarrow> string list" where
  "check_download P manifest_path url declared_hash =
     (if truthy url then
        (case requests_get P url of
           Inl e \<Rightarrow> [msg_download_failed manifest_path e]
         | Inr r \<Rightarrow>
             (if status_code r \<noteq> 200 then [msg_http_status manifest_path (status_code r)]
              else
                (let actual_hash = sha256_bytes P (content r) in
                 if JStr actual_hash \<noteq> declared_hash
                 then [msg_sha256_mismatch manifest_path (format_value P declared_hash) actual_hash]
                 else [])))
      else [])"

text \<open>
  The body of the loop for one manifest path. A value that is not a dict ends the run:
  \<open>field not in manifest\<close> raises \<open>TypeError\<close> on \<open>None\<close>, a bool or a number, and
  \<open>manifest.get\<close> raises \<open>AttributeError\<close> on a list or a string, outside every handler.
\<close>

definition validate_one :: "platform \<Rightarrow> (string \<rightharpoonup> string) \<Rightarrow> string \<Rightarrow> exn + string list" where
  "validate_one P files_on_disk manifest_path =
     (case files_on_disk manifest_path of
        None \<Rightarrow> Inr [msg_file_not_found manifest_path]
      | Some data \<Rightarrow>
          (case json_parse P data of
             Inl e \<Rightarrow> Inr [msg_invalid_json manifest_path e]
           | Inr manifest \<Rightarrow>
               (case manifest of
                  JObj kvs \<Rightarrow>
                    Inr (check_fields manifest_path kvs REQUIRED_FIELDS
                         @ check_icon P files_on_disk manifest_path (dict_get kvs ''package'')
                         @ check_download P manifest_path (dict_get kvs ''url'') (dict_get kvs ''sha256''))
                | JArr xs \<Rightarrow> Inl AttributeError
                | JStr s \<Rightarrow> Inl AttributeError
                | _ \<Rightarrow> Inl TypeError)))"

text \<open>The \<open>for manifest_path in manifests\<close> loop, with \<open>errors\<close> as the accumulator.\<close>

fun validate_loop :: "platform \<Rightarrow> (string \<rightharpoonup> string) \<Rightarrow> string list \<Rightarrow> string list \<Rightarrow> exn + string list" where
  "validate_loop P files_on_disk [] errors = Inr errors"
| "validate_loop P files_on_disk (manifest_path # rest) errors =
     (case validate_one P files_on_disk manifest_path of
        Inl x \<Rightarrow> Inl x
      | Inr es \<Rightarrow> validate_loop P files_on_disk rest (errors @ es))"

definition msg_validation_failed :: "string list \<Rightarrow> string" where
  "msg_validation_failed errors =
     ''Manifest validation failed:'' @ [CHR 0x0A, CHR 0x0A] @ join [CHR 0x0A] errors
       @ [CHR 0x0A, CHR 0x0A] @ ''Fix the issues and comment `@bot check` to re-run validation.''"

definition msg_validation_successful :: string where
  "msg_validation_successful =
     check_mark @ '' Manifest validation successful.'' @ [CHR 0x0A]
       @ ''The manifest is now locked for moderator review.''"

text \<open>The end of \<open>main\<close>: labels, the comment and the exit status, from the list of errors.\<close>

definition report :: "env \<Rightarrow> int \<Rightarrow> string list \<Rightarrow> world \<Rightarrow> exit \<times> world" where
  "report e n errors w =
     (let labels = get_labels n w in
      if errors \<noteq> [] then
        (let w1 = (if ''On review'' \<in> set labels then remove_from_labels n ''On review'' w else w);
             w2 = (if ''Invalid manifest'' \<notin> set labels then add_to_labels n ''Invalid manifest'' w1 else w1);
             w3 = create_comment e n (msg_validation_failed errors) w2
         in (Exited 1, w3))
      else
        (let w1 = (if ''Invalid manifest'' \<in> set labels then remove_from_labels n ''Invalid manifest'' w else w);
             w2 = (if ''On review'' \<notin> set labels then add_to_labels n ''On review'' w1 else w1);
             w3 = create_comment e n msg_validation_successful w2
         in (Exited 0, w3)))"

definition validate_main :: "platform \<Rightarrow> env \<Rightarrow> world \<Rightarrow> exit \<times> world" where
  "validate_main P e w =
     (if not_set (github_token e) \<or> not_set (github_repository e) then (Exited 1, w)
      else
        (case get_pr_number e of
           Inl x \<Rightarrow> (Uncaught x, w)
         | Inr None \<Rightarrow> (Exited 0, w)
         | Inr (Some n) \<Rightarrow>
             (if n = 0 then (Exited 0, w)
              else
                (case threads w n of
                   None \<Rightarrow> (Uncaught UnknownObjectException, w)
                 | Some t \<Rightarrow>
                     (let manifests = filter is_manifest (get_files n w) in
                      if manifests = [] then (Exited 0, w)
                      else
                        (case validate_loop P (fs w) manifests [] of
                           Inl x \<Rightarrow> (Uncaught x, w)
                         | Inr errors \<Rightarrow> report e n errors w))))))"

section \<open>bot_commands.py\<close>

text \<open>\<open>MODERATOR = os.environ.get("BOT_USER", "Artyomka628")\<close>.\<close>

definition MODERATOR :: "env \<Rightarrow> string" where
  "MODERATOR e = (case bot_user e of None \<Rightarrow> ''Artyomka628'' | Some u \<Rightarrow> u)"

text \<open>
  \<open>get_pr_number_from_event\<close>: the payload's \<open>issue.number\<close>, else the number in
  \<open>GITHUB_REF\<close>; here a failing \<open>int()\<close> is caught and gives \<open>None\<close>.
\<close>

definition get_pr_number_from_event :: "env \<Rightarrow> int option" where
  "get_pr_number_from_event e =
     (case issue_number e of
        Some n \<Rightarrow> Some n
      | None \<Rightarrow>
          (case github_ref e of
             PullRef n \<Rightarrow> Some n
           | MalformedPullRef \<Rightarrow> None
           | OtherRef \<Rightarrow> None))"

definition MARKER_START :: string where
  "MARKER_START = ''<!-- MANIFEST_HASHES''"

definition MARKER_END :: string where
  "MARKER_END = ''END MANIFEST_HASHES -->''"

text \<open>
  The \<open>try\<close> block of \<open>find_manifest_hash_comment\<close> on one comment body: \<open>None\<close> when
  \<open>index\<close> or \<open>json.loads\<close> raises.
\<close>

definition parse_hash_comment :: "platform \<Rightarrow> string \<Rightarrow> json option" where
  "parse_hash_comment P text =
     (case py_index_from text MARKER_START 0 of
        None \<Rightarrow> None
      | Some i \<Rightarrow>
          (let start = i + length MARKER_START in
           case py_index_from text MARKER_END start of
             None \<Rightarrow> None
           | Some end \<Rightarrow>
               (case json_parse P (strip (slice text start end)) of
                  Inl x \<Rightarrow> None
                | Inr data \<Rightarrow> Some data)))"

text \<open>The loop of \<open>find_manifest_hash_comment\<close> over the comments in the order it visits them.\<close>

fun scan_comments :: "platform \<Rightarrow> comment list \<Rightarrow> comment option \<times> json" where
  "scan_comments P [] = (None, JNull)"
| "scan_comments P (c # cs) =
     (let text = (case body c of None \<Rightarrow> [] | Some b \<Rightarrow> b) in
      if contains MARKER_START text then
        (case parse_hash_comment P text of
           Some data \<Rightarrow> (Some c, data)
         | None \<Rightarrow> scan_comments P cs)
      else scan_comments P cs)"

definition find_manifest_hash_comment :: "platform \<Rightarrow> comment list \<Rightarrow> comment option \<times> json" where
  "find_manifest_hash_comment P thread_comments = scan_comments P (rev thread_comments)"

text \<open>
  \<open>compute_local_hashes\<close>: a dict from each path to the digest of the file, or to \<open>None\<close>
  when the file cannot be read.
\<close>

fun compute_local_hashes ::
  "platform \<Rightarrow> (string \<rightharpoonup> string) \<Rightarrow> string list \<Rightarrow> (string \<rightharpoonup> string option) \<Rightarrow> (string \<rightharpoonup> string option)" where
  "compute_local_hashes P files_on_disk [] result = result"
| "compute_local_hashes P files_on_disk (p # ps) result =
     compute_local_hashes P files_on_disk ps
       (result(p \<mapsto> (case files_on_disk p of None \<Rightarrow> None | Some data \<Rightarrow> Some (sha256_hex P data))))"

definition msg_current_missing :: "string \<Rightarrow> string" where
  "msg_current_missing p = p @ '': current file missing in checkout''"

definition msg_file_changed :: "string \<Rightarrow> string" where
  "msg_file_changed p = p @ '': file changed after validation''"

text \<open>\<open>stored_hashes.get(p)\<close>: only a dict has \<open>get\<close>.\<close>

definition stored_get :: "json \<Rightarrow> string \<Rightarrow> exn + json" where
  "stored_get stored_hashes p =
     (case stored_hashes of JObj kvs \<Rightarrow> Inr (dict_get kvs p) | _ \<Rightarrow> Inl AttributeError)"

text \<open>
  The comparison loop, with \<open>mismatch\<close> and \<open>mismatch_msgs\<close> as the accumulator.
  \<open>not current\<close> holds for \<open>None\<close> and for the empty string.
\<close>

fun compare_hashes ::
  "json \<Rightarrow> (string \<rightharpoonup> string option) \<Rightarrow> string list \<Rightarrow> bool \<times> string list \<Rightarrow> exn + bool \<times> string list" where
  "compare_hashes stored_hashes local_hashes [] acc = Inr acc"
| "compare_hashes stored_hashes local_hashes (p # ps) (mismatch, mismatch_msgs) =
     (case stored_get stored_hashes p of
        Inl x \<Rightarrow> Inl x
      | Inr stored \<Rightarrow>
          (let current = (case local_hashes p of None \<Rightarrow> None | Some v \<Rightarrow> v) in
           if current = None \<or> current = Some [] then
             compare_hashes stored_hashes local_hashes ps (True, mismatch_msgs @ [msg_current_missing p])
           else if Some stored \<noteq> map_option JStr current then
             compare_hashes stored_hashes local_hashes ps (True, mismatch_msgs @ [msg_file_changed p])
           else compare_hashes stored_hashes local_hashes ps (mismatch, mismatch_msgs)))"

definition msg_running :: "string \<Rightarrow> string" where
  "msg_running comment_user =
     repeat_mark @ '' Running manifest validation as requested by @'' @ comment_user @ ''...''"

definition msg_completed :: string where
  "msg_completed = check_mark @ '' Validation completed.''"

definition msg_completed_with_errors :: string where
  "msg_completed_with_errors = cross_mark @ '' Validation completed with errors. See above comments.''"

definition msg_not_moderator :: "env \<Rightarrow> string" where
  "msg_not_moderator e = cross_mark @ '' Only @'' @ MODERATOR e @ '' can approve or deny PRs.''"

definition msg_not_on_review :: string where
  "msg_not_on_review =
     cross_mark @ '' This PR is not marked '' @ [CHR 0x27] @ ''On review'' @ [CHR 0x27]
       @ ''. Approval is not allowed. Please ensure the manifest is validated and locked before approving.''"

definition msg_no_stored_hashes :: string where
  "msg_no_stored_hashes =
     cross_mark @ '' No stored manifest hashes found. The PR must be validated with `@bot check` first.''"

definition msg_changed_since_validation :: "string list \<Rightarrow> string" where
  "msg_changed_since_validation mismatch_msgs =
     cross_mark @ '' Cannot proceed: manifests have changed since validation:'' @ [CHR 0x0A, CHR 0x0A]
       @ join [CHR 0x0A] mismatch_msgs @ [CHR 0x0A, CHR 0x0A] @ ''Please run `@bot check` again.''"

definition msg_merged :: string where
  "msg_merged = check_mark @ '' PR approved and merged by moderator.''"

definition msg_merge_failed :: "string \<Rightarrow> string" where
  "msg_merge_failed x = cross_mark @ '' Failed to merge PR: '' @ x"

definition msg_rejected :: string where
  "msg_rejected = cross_mark @ '' PR rejected and closed by moderator.''"

definition msg_close_failed :: "string \<Rightarrow> string" where
  "msg_close_failed x = cross_mark @ '' Failed to close PR: '' @ x"

definition msg_unknown_command :: string where
  "msg_unknown_command =
     info_mark @ '' Unknown command. Supported commands: `@bot check`, `@bot allow`, `@bot deny`.''"

text \<open>The \<open>@bot check\<close> branch: the validator runs as a child process with the same environment.\<close>

definition handle_check :: "platform \<Rightarrow> env \<Rightarrow> int \<Rightarrow> string \<Rightarrow> world \<Rightarrow> exit \<times> world" where
  "handle_check P e n comment_user w =
     (let w1 = create_comment e n (msg_running comment_user) w;
          (res, w2) = validate_main P e w1;
          w3 = (if status res = 0 then create_comment e n msg_completed w2
                else create_comment e n msg_completed_with_errors w2)
      in (Exited 0, w3))"

text \<open>\<open>pr.merge(merge_method="squash")\<close> and what follows it inside the \<open>try\<close>.\<close>

definition do_allow :: "env \<Rightarrow> int \<Rightarrow> world \<Rightarrow> exit \<times> world" where
  "do_allow e n w =
     (let w1 = upd_thread n (\<lambda>t. t\<lparr>merge_calls := Suc (merge_calls t)\<rparr>) w in
      case (case threads w n of None \<Rightarrow> None | Some t \<Rightarrow> merge_error t) of
        Some x \<Rightarrow> (Exited 1, create_comment e n (msg_merge_failed x) w1)
      | None \<Rightarrow>
          (let w2 = upd_thread n (\<lambda>t. t\<lparr>merged := True\<rparr>) w1;
               w3 = remove_from_labels n ''On review'' w2;
               w4 = add_to_labels n ''Approved'' w3;
               w5 = create_comment e n msg_merged w4
           in (Exited 0, w5)))"

text \<open>\<open>pr.edit(state="closed")\<close> and what follows it inside the \<open>try\<close>.\<close>

definition do_deny :: "env \<Rightarrow> int \<Rightarrow> world \<Rightarrow> exit \<times> world" where
  "do_deny e n w =
     (let w1 = upd_thread n (\<lambda>t. t\<lparr>close_calls := Suc (close_calls t)\<rparr>) w in
      case (case threads w n of None \<Rightarrow> None | Some t \<Rightarrow> edit_error t) of
        Some x \<Rightarrow> (Exited 1, create_comment e n (msg_close_failed x) w1)
      | None \<Rightarrow>
          (let w2 = upd_thread n (\<lambda>t. t\<lparr>closed := True\<rparr>) w1;
               w3 = remove_from_labels n ''On review'' w2;
               w4 = add_to_labels n ''Rejected'' w3;
               w5 = create_comment e n msg_rejected w4
           in (Exited 0, w5)))"

text \<open>
  The part of the \<open>@bot allow\<close> / \<open>@bot deny\<close> branch that follows the lookup: the stored
  hashes are compared with the files of the checkout, and the command is carried out when
  nothing differs.
\<close>

definition compare_and_act ::
  "platform \<Rightarrow> env \<Rightarrow> int \<Rightarrow> string \<Rightarrow> json \<Rightarrow> world \<Rightarrow> exit \<times> world" where
  "compare_and_act P e n comment_body stored_hashes w =
     (let manifest_paths = filter is_manifest (get_files n w);
          local_hashes = compute_local_hashes P (fs w) manifest_paths Map.empty
      in case compare_hashes stored_hashes local_hashes manifest_paths (False, []) of
           Inl x \<Rightarrow> (Uncaught x, w)
         | Inr (mismatch, mismatch_msgs) \<Rightarrow>
             (if mismatch then
                (let w1 = create_comment e n (msg_changed_since_validation mismatch_msgs) w;
                     w2 = remove_from_labels n ''On review'' w1;
                     w3 = add_to_labels n ''Invalid manifest'' w2
                 in (Exited 0, w3))
              else if contains ''@bot allow'' comment_body then do_allow e n w
              else do_deny e n w))"

text \<open>The \<open>@bot allow\<close> / \<open>@bot deny\<close> branch.\<close>

definition handle_allow_deny ::
  "platform \<Rightarrow> env \<Rightarrow> int \<Rightarrow> string \<Rightarrow> string \<Rightarrow> world \<Rightarrow> exit \<times> world" where
  "handle_allow_deny P e n comment_body comment_user w =
     (if comment_user \<noteq> MODERATOR e then (Exited 0, create_comment e n (msg_not_moderator e) w)
      else if ''On review'' \<notin> set (get_labels n w) then (Exited 0, create_comment e n msg_not_on_review w)
      else
        (let (marker_comment, stored_hashes) = find_manifest_hash_comment P (get_comments n w) in
         if stored_hashes = JNull then (Exited 0, create_comment e n msg_no_stored_hashes w)
         else compare_and_act P e n comment_body stored_hashes w))"

text \<open>
  The comment text and its author: from the payload's \<open>comment\<close> when there is one, else
  from \<open>GITHUB_EVENT_COMMENT_BODY\<close> and \<open>GITHUB_ACTOR\<close>.
\<close>

definition read_comment :: "env \<Rightarrow> string \<times> string" where
  "read_comment e =
     (case event_comment e of
        Some (b, u) \<Rightarrow> (b, u)
      | None \<Rightarrow> (github_event_comment_body e, github_actor e))"

definition main :: "platform \<Rightarrow> env \<Rightarrow> world \<Rightarrow> exit \<times> world" where
  "main P e w =
     (if not_set (github_token e) then (Exited 1, w)
      else if not_set (github_repository e) then (Exited 1, w)
      else
        (case get_pr_number_from_event e of
           None \<Rightarrow> (Exited 0, w)
         | Some n \<Rightarrow>
             (case threads w n of
                None \<Rightarrow> (Uncaught UnknownObjectException, w)
              | Some t \<Rightarrow>
                  (let (comment_body, comment_user) = read_comment e;
                       comment_body = strip comment_body
                   in if \<not> contains ''@bot'' comment_body then (Exited 0, w)
                      else if contains ''@bot check'' comment_body then handle_check P e n comment_user w
                      else if contains ''@bot allow'' comment_body \<or> contains ''@bot deny'' comment_body
                      then handle_allow_deny P e n comment_body comment_user w
                      else (Exited 0, create_comment e n msg_unknown_command w)))))"

section \<open>Vocabulary of the properties\<close>

text \<open>Both scripts get past their environment checks.\<close>

definition env_ok :: "env \<Rightarrow> bool" where
  "env_ok e = (\<not> not_set (github_token e) \<and> \<not> not_set (github_repository e))"

text \<open>The command text the dispatcher inspects, and the actor who wrote it.\<close>

definition command_text :: "env \<Rightarrow> string" where
  "command_text e = strip (fst (read_comment e))"

definition command_user :: "env \<Rightarrow> string" where
  "command_user e = snd (read_comment e)"

text \<open>The dispatcher takes the allow/deny branch: the check branch is tried first.\<close>

definition is_allow_deny :: "env \<Rightarrow> bool" where
  "is_allow_deny e =
     ((contains ''@bot allow'' (command_text e) \<or> contains ''@bot deny'' (command_text e))
      \<and> \<not> contains ''@bot check'' (command_text e))"

definition is_allow :: "env \<Rightarrow> bool" where
  "is_allow e = (contains ''@bot allow'' (command_text e) \<and> \<not> contains ''@bot check'' (command_text e))"

text \<open>The world with thread \<open>n\<close> replaced, and a thread with one more comment by the bot.\<close>

definition set_thread :: "int \<Rightarrow> thread \<Rightarrow> world \<Rightarrow> world" where
  "set_thread n t w = w\<lparr>threads := (threads w)(n \<mapsto> t)\<rparr>"

definition reply :: "env \<Rightarrow> string \<Rightarrow> thread \<Rightarrow> thread" where
  "reply e text t = t\<lparr>comments := comments t @ [\<lparr>user = token_user e, body = Some text\<rparr>]\<rparr>"

text \<open>
  What the comparison loop reports for one path against a recorded mapping: the file is
  gone (or its digest is empty), or its digest is not the recorded one.
\<close>

definition stale_reason :: "platform \<Rightarrow> (string \<rightharpoonup> string) \<Rightarrow> (string \<times> json) list \<Rightarrow> string \<Rightarrow> string list" where
  "stale_reason P files_on_disk kvs p =
     (case files_on_disk p of
        None \<Rightarrow> [msg_current_missing p]
      | Some data \<Rightarrow>
          (if sha256_hex P data = [] then [msg_current_missing p]
           else if dict_get kvs p \<noteq> JStr (sha256_hex P data) then [msg_file_changed p]
           else []))"

text \<open>The mapping a single comment yields to the lookup, if any.\<close>

definition comment_hashes :: "platform \<Rightarrow> comment \<Rightarrow> json option" where
  "comment_hashes P c =
     (let text = (case body c of None \<Rightarrow> [] | Some b \<Rightarrow> b) in
      if contains MARKER_START text then parse_hash_comment P text else None)"


text \<open>
  The thread after a validation without defects: \<open>Invalid manifest\<close> removed, \<open>On review\<close>
  added, and the success comment posted.
\<close>

definition validated :: "env \<Rightarrow> thread \<Rightarrow> thread" where
  "validated e t =
     t\<lparr>labels := filter (\<lambda>x. x \<noteq> ''Invalid manifest'') (labels t)
                  @ (if ''On review'' \<in> set (labels t) then [] else [''On review'']),
       comments := comments t @ [\<lparr>user = token_user e, body = Some msg_validation_successful\<rparr>]\<rparr>"

text \<open>The thread after a validation with defects.\<close>

definition invalidated :: "env \<Rightarrow> string list \<Rightarrow> thread \<Rightarrow> thread" where
  "invalidated e errors t =
     t\<lparr>labels := filter (\<lambda>x. x \<noteq> ''On review'') (labels t)
                  @ (if ''Invalid manifest'' \<in> set (labels t) then [] else [''Invalid manifest'']),
       comments := comments t @ [\<lparr>user = token_user e, body = Some (msg_validation_failed errors)\<rparr>]\<rparr>"

text \<open>The validator reaches its loop for thread \<open>n\<close>.\<close>

definition validates :: "env \<Rightarrow> int \<Rightarrow> bool" where
  "validates e n = (env_ok e \<and> get_pr_number e = Inr (Some n) \<and> n \<noteq> 0)"

text \<open>The defects the loop body adds for one manifest path, when it returns.\<close>

definition defects_of :: "platform \<Rightarrow> (string \<rightharpoonup> string) \<Rightarrow> string \<Rightarrow> string list" where
  "defects_of P files_on_disk manifest_path =
     (case validate_one P files_on_disk manifest_path of Inl x \<Rightarrow> [] | Inr es \<Rightarrow> es)"

text \<open>A parsed manifest is a \<open>dict\<close>.\<close>

fun is_dict :: "json \<Rightarrow> bool" where
  "is_dict (JObj kvs) = True"
| "is_dict v = False"

section \<open>A sample repository\<close>

text \<open>
  Concrete inputs on which the properties are evaluated: a manifest, its icon, a download,
  and stand-ins for the library calls. The stand-in for the digest prefixes the data with
  \<open>h-\<close>; the stand-in for the JSON parser knows the texts used below; the stand-in for the
  image library reads the format and the dimensions from the first bytes of the file.
\<close>

definition demo_manifest_text :: string where
  \<open>demo_manifest_text =
     ''{"package": "app", "name": "App", "author": "dev", "version": "1.0", ''
     @ ''"category": "tools", "description": "An app", "url": "https://example.org/app.bin", ''
     @ ''"sha256": "h-payload", "api_level": 1, "permissions": [], "min_os_version": "1.0"}''\<close>

definition demo_manifest :: json where
  "demo_manifest =
     JObj [(''package'', JStr ''app''), (''name'', JStr ''App''), (''author'', JStr ''dev''),
           (''version'', JStr ''1.0''), (''category'', JStr ''tools''),
           (''description'', JStr ''An app''), (''url'', JStr ''https://example.org/app.bin''),
           (''sha256'', JStr ''h-payload''), (''api_level'', JInt 1), (''permissions'', JArr []),
           (''min_os_version'', JStr ''1.0'')]"

definition demo_null_name_text :: string where
  \<open>demo_null_name_text =
     ''{"package": "app", "name": null, "author": "dev", "version": "1.0", ''
     @ ''"category": "tools", "description": "An app", "url": "https://example.org/app.bin", ''
     @ ''"sha256": "h-payload", "api_level": 1, "permissions": [], "min_os_version": "1.0"}''\<close>

definition demo_null_name :: json where
  "demo_null_name =
     JObj [(''package'', JStr ''app''), (''name'', JNull), (''author'', JStr ''dev''),
           (''version'', JStr ''1.0''), (''category'', JStr ''tools''),
           (''description'', JStr ''An app''), (''url'', JStr ''https://example.org/app.bin''),
           (''sha256'', JStr ''h-payload''), (''api_level'', JInt 1), (''permissions'', JArr []),
           (''min_os_version'', JStr ''1.0'')]"

text \<open>A manifest with two of the required fields.\<close>

definition demo_partial_text :: string where
  \<open>demo_partial_text = ''{"package": "app", "name": null}''\<close>

definition demo_partial :: json where
  "demo_partial = JObj [(''package'', JStr ''app''), (''name'', JNull)]"

definition demo_ledger_text :: string where
  \<open>demo_ledger_text = ''{"manifests/app.json": "h-old"}''\<close>

definition demo_ledger :: json where
  "demo_ledger = JObj [(''manifests/app.json'', JStr ''h-old'')]"

definition demo_platform :: platform where
  "demo_platform =
     \<lparr>json_parse = (\<lambda>s.
          if s = demo_manifest_text then Inr demo_manifest
          else if s = demo_null_name_text then Inr demo_null_name
          else if s = demo_ledger_text then Inr demo_ledger
          else if s = ''[]'' then Inr (JArr [])
          else if s = ''null'' then Inr JNull
          else if s = demo_partial_text then Inr demo_partial
          else Inl ''Expecting value''),
      sha256_hex = (\<lambda>data. ''h-'' @ data),
      image_open = (\<lambda>data.
          if prefix ''png 32x32'' data then Inr \<lparr>format = ''PNG'', width = 32, height = 32\<rparr>
          else if prefix ''jpeg 64x64'' data then Inr \<lparr>format = ''JPEG'', width = 64, height = 64\<rparr>
          else Inl ''cannot identify image file''),
      requests_get = (\<lambda>url.
          if url = JStr ''https://example.org/app.bin''
          then Inr \<lparr>status_code = 200, content = ''payload''\<rparr>
          else Inl ''connection refused''),
      py_repr = (\<lambda>v. ''?'')\<rparr>"


definition demo_thread :: "string list \<Rightarrow> comment list \<Rightarrow> string list \<Rightarrow> thread" where
  "demo_thread ls cs fl =
     \<lparr>labels = ls, comments = cs, files = fl, merged = False, closed = False,
      merge_calls = 0, close_calls = 0, merge_error = None, edit_error = None\<rparr>"

definition demo_world :: "thread \<Rightarrow> (string \<times> string) list \<Rightarrow> world" where
  "demo_world t disk = \<lparr>threads = [7 \<mapsto> t], fs = map_of disk\<rparr>"

text \<open>A comment event on pull request 7, and a pull-request event for the validator.\<close>

definition demo_command :: "string \<Rightarrow> string \<Rightarrow> env" where
  "demo_command text actor =
     \<lparr>github_token = Some ''token'', github_repository = Some ''QuietOS-dev/Store1'',
      bot_user = None, github_ref = PullRef 7, issue_number = Some 7,
      pull_request_number = None, event_comment = Some (text, actor),
      github_event_comment_body = [], github_actor = actor, token_user = ''github-actions[bot]''\<rparr>"

definition demo_pull_request :: env where
  "demo_pull_request =
     \<lparr>github_token = Some ''token'', github_repository = Some ''QuietOS-dev/Store1'',
      bot_user = None, github_ref = PullRef 7, issue_number = None,
      pull_request_number = Some 7, event_comment = None,
      github_event_comment_body = [], github_actor = ''contributor'',
      token_user = ''github-actions[bot]''\<rparr>"

definition demo_ledger_comment :: comment where
  "demo_ledger_comment =
     \<lparr>user = ''someone'',
      body = Some (''<!-- MANIFEST_HASHES'' @ [CHR 0x0A] @ demo_ledger_text @ [CHR 0x0A]
                   @ ''END MANIFEST_HASHES -->'')\<rparr>"

definition demo_null_comment :: comment where
  "demo_null_comment =
     \<lparr>user = ''someone'', body = Some ''<!-- MANIFEST_HASHES null END MANIFEST_HASHES -->''\<rparr>"

definition demo_broken_comment :: comment where
  "demo_broken_comment =
     \<lparr>user = ''someone else'', body = Some ''<!-- MANIFEST_HASHES {broken END MANIFEST_HASHES -->''\<rparr>"

text \<open>A stored comment whose JSON is padded with a no-break space and an em space.\<close>

definition demo_padded_comment :: comment where
  "demo_padded_comment =
     \<lparr>user = ''someone'',
      body = Some (''<!-- MANIFEST_HASHES'' @ [CHR 0xC2, CHR 0xA0] @ demo_ledger_text
                   @ [CHR 0xE2, CHR 0x80, CHR 0x83, CHR 0x0A] @ ''END MANIFEST_HASHES -->'')\<rparr>"

text \<open>An allow command by \<open>mallory\<close> in a run whose \<open>BOT_USER\<close> holds the two markers.\<close>

definition demo_marker_command :: env where
  "demo_marker_command =
     (demo_command ''@bot allow'' ''mallory'')
       \<lparr>bot_user := Some ''<!-- MANIFEST_HASHES [] END MANIFEST_HASHES -->''\<rparr>"

section \<open>Strings: containment\<close>

lemma py_find_None_iff: "py_find needle s = None \<longleftrightarrow> \<not> sublist needle s"
  by (induction s) (auto simp: sublist_Cons_right)

lemma contains_iff_sublist: "contains needle s \<longleftrightarrow> sublist needle s"
  by (simp add: contains_def py_find_None_iff)

lemma contains_set: "contains needle s \<Longrightarrow> set needle \<subseteq> set s"
  by (simp add: contains_iff_sublist set_mono_sublist)


lemma sublist_append_dest: "sublist (a @ b) s \<Longrightarrow> sublist a s"
proof -
  assume "sublist (a @ b) s"
  then obtain ps ss where "s = ps @ (a @ b) @ ss" by (auto simp: sublist_def)
  then have "s = ps @ a @ (b @ ss)" by simp
  then show ?thesis unfolding sublist_def by blast
qed

lemma contains_bot: "contains ''@bot allow'' s \<or> contains ''@bot deny'' s \<Longrightarrow> contains ''@bot'' s"
  using sublist_append_dest [of "''@bot''" "'' allow''" s] sublist_append_dest [of "''@bot''" "'' deny''" s]
  by (auto simp: contains_iff_sublist)

section \<open>The host operations on an existing thread\<close>

lemma create_comment_eq:
  "threads w n = Some t \<Longrightarrow> create_comment e n text w = set_thread n (reply e text t) w"
  by (simp add: create_comment_def upd_thread_def set_thread_def reply_def)

lemma get_labels_eq: "threads w n = Some t \<Longrightarrow> get_labels n w = labels t"
  by (simp add: get_labels_def)

lemma get_comments_eq: "threads w n = Some t \<Longrightarrow> get_comments n w = comments t"
  by (simp add: get_comments_def)

lemma get_files_eq: "threads w n = Some t \<Longrightarrow> get_files n w = files t"
  by (simp add: get_files_def)

lemma threads_set_thread: "threads (set_thread n t w) n = Some t"
  by (simp add: set_thread_def)

text \<open>An allow or deny command that is not also a check command reaches the approval gate.\<close>

lemma main_allow_deny:
  assumes "env_ok e" "get_pr_number_from_event e = Some n" "threads w n = Some t" "is_allow_deny e"
  shows "main P e w = handle_allow_deny P e n (command_text e) (command_user e) w"
proof -
  have "contains ''@bot'' (command_text e)"
    using assms(4) contains_bot by (auto simp: is_allow_deny_def)
  then show ?thesis
    using assms
    by (auto simp: main_def env_ok_def command_text_def command_user_def is_allow_deny_def
        split: option.splits prod.splits)
qed

section \<open>The lookup and comments without the marker\<close>

lemma find_hash_comment_snoc:
  "\<not> contains MARKER_START text \<Longrightarrow>
   find_manifest_hash_comment P (cs @ [\<lparr>user = u, body = Some text\<rparr>]) = find_manifest_hash_comment P cs"
  by (simp add: find_manifest_hash_comment_def)

lemma marker_needs_lt: "contains MARKER_START s \<Longrightarrow> CHR ''<'' \<in> set s"
  using contains_set [of MARKER_START s] by (auto simp: MARKER_START_def)

lemma not_moderator_no_marker:
  "CHR ''<'' \<notin> set (MODERATOR e) \<Longrightarrow> \<not> contains MARKER_START (msg_not_moderator e)"
  by (auto dest!: marker_needs_lt simp: msg_not_moderator_def cross_mark_def)

lemmas strip_simps = strip_def lstrip_def rstrip_def isspace_def whitespace_def

lemmas demo_simps = demo_command_def demo_world_def demo_thread_def demo_pull_request_def
  env_ok_def not_set_def get_pr_number_from_event_def get_pr_number_def is_allow_deny_def is_allow_def
  command_text_def command_user_def read_comment_def strip_simps contains_def MODERATOR_def

section \<open>The comparison of stored and current hashes\<close>



lemma compare_hashes_no_paths: "compare_hashes d L [] acc = Inr acc"
  by simp

lemma set_thread_twice: "set_thread n t2 (set_thread n t1 w) = set_thread n t2 w"
  by (simp add: set_thread_def)

lemma remove_from_labels_eq:
  "threads w n = Some t \<Longrightarrow>
   remove_from_labels n l w = set_thread n (t\<lparr>labels := filter (\<lambda>x. x \<noteq> l) (labels t)\<rparr>) w"
  by (simp add: remove_from_labels_def upd_thread_def set_thread_def)

lemma add_to_labels_eq:
  "threads w n = Some t \<Longrightarrow>
   add_to_labels n l w
     = set_thread n (t\<lparr>labels := (if l \<in> set (labels t) then labels t else labels t @ [l])\<rparr>) w"
  by (simp add: add_to_labels_def upd_thread_def set_thread_def)

lemma upd_thread_eq: "threads w n = Some t \<Longrightarrow> upd_thread n f w = set_thread n (f t) w"
  by (simp add: upd_thread_def set_thread_def)

lemma fs_set_thread: "fs (set_thread n t w) = fs w"
  by (simp add: set_thread_def)


lemma compare_and_act_no_manifests:
  assumes "threads w n = Some t" "\<forall>f \<in> set (files t). \<not> is_manifest f"
  shows "compare_and_act P e n text d w
     = (if contains ''@bot allow'' text then do_allow e n w else do_deny e n w)"
proof -
  have "filter is_manifest (files t) = []" using assms(2) by (simp add: filter_empty_conv)
  then show ?thesis using assms(1) by (simp add: compare_and_act_def get_files_eq)
qed

lemma main_gate_passed:
  assumes "env_ok e" "get_pr_number_from_event e = Some n" "threads w n = Some t"
    "is_allow_deny e" "command_user e = MODERATOR e" "''On review'' \<in> set (labels t)"
    "snd (find_manifest_hash_comment P (comments t)) \<noteq> JNull"
  shows "main P e w
     = compare_and_act P e n (command_text e) (snd (find_manifest_hash_comment P (comments t))) w"
  using assms
  by (auto simp: main_allow_deny handle_allow_deny_def get_labels_eq get_comments_eq split: prod.splits)

section \<open>The lookup of the stored hashes\<close>

lemma scan_comments_step:
  "scan_comments P (c # cs)
     = (case comment_hashes P c of Some d \<Rightarrow> (Some c, d) | None \<Rightarrow> scan_comments P cs)"
  by (simp add: comment_hashes_def Let_def split: option.splits)

lemma scan_comments_skip:
  "\<forall>x \<in> set xs. comment_hashes P x = None \<Longrightarrow> scan_comments P (xs @ ys) = scan_comments P ys"
  by (induction xs) (simp_all add: scan_comments_step del: scan_comments.simps(2))

lemma find_none:
  "\<forall>x \<in> set cs. comment_hashes P x = None \<Longrightarrow> find_manifest_hash_comment P cs = (None, JNull)"
  using scan_comments_skip [of "rev cs" P "[]"] by (simp add: find_manifest_hash_comment_def)

lemma find_newest:
  assumes "comment_hashes P c = Some d" "\<forall>x \<in> set newer. comment_hashes P x = None"
  shows "find_manifest_hash_comment P (older @ c # newer) = (Some c, d)"
proof -
  have "scan_comments P (rev newer @ c # rev older) = scan_comments P (c # rev older)"
    using assms(2) by (intro scan_comments_skip) simp
  also have "\<dots> = (Some c, d)"
    using assms(1) by (simp add: scan_comments_step del: scan_comments.simps(2))
  finally show ?thesis by (simp add: find_manifest_hash_comment_def)
qed

lemma comment_hashes_user: "comment_hashes P (c\<lparr>user := u\<rparr>) = comment_hashes P c"
  by (simp add: comment_hashes_def)

lemma scan_comments_users:
  "scan_comments P (map (\<lambda>c. c\<lparr>user := g c\<rparr>) cs)
     = (map_option (\<lambda>c. c\<lparr>user := g c\<rparr>) (fst (scan_comments P cs)), snd (scan_comments P cs))"
  by (induction cs)
     (simp_all add: scan_comments_step comment_hashes_user del: scan_comments.simps(2) split: option.splits)

lemma find_users:
  "find_manifest_hash_comment P (map (\<lambda>c. c\<lparr>user := g c\<rparr>) cs)
     = (map_option (\<lambda>c. c\<lparr>user := g c\<rparr>) (fst (find_manifest_hash_comment P cs)),
        snd (find_manifest_hash_comment P cs))"
  by (simp add: find_manifest_hash_comment_def scan_comments_users rev_map)

lemmas lookup_simps = comment_hashes_def parse_hash_comment_def py_index_from_def slice_def
  strip_simps MARKER_START_def MARKER_END_def contains_def Let_def
  demo_ledger_comment_def demo_null_comment_def demo_broken_comment_def demo_platform_def
  demo_ledger_text_def demo_manifest_text_def demo_null_name_text_def demo_ledger_def
  demo_partial_text_def

lemma demo_ledger_hashes: "comment_hashes demo_platform demo_ledger_comment = Some demo_ledger"
  by (simp add: lookup_simps)

lemma demo_null_hashes: "comment_hashes demo_platform demo_null_comment = Some JNull"
  by (simp add: lookup_simps)

lemma demo_broken_hashes: "comment_hashes demo_platform demo_broken_comment = None"
  by (simp add: lookup_simps)

lemma strip_unicode:
  "strip ([CHR 0x20, CHR 0xC2, CHR 0xA0, CHR 0xE3, CHR 0x80, CHR 0x80] @ ''[ ]''
          @ [CHR 0xE2, CHR 0x80, CHR 0xA8, CHR 0x0A, CHR 0xC2, CHR 0x85]) = ''[ ]''"
  by (simp add: strip_simps)

lemma demo_padded_hashes: "comment_hashes demo_platform demo_padded_comment = Some demo_ledger"
  by (simp add: lookup_simps demo_padded_comment_def)

section \<open>The validator on one manifest and on all of them\<close>

lemma filter_absent: "x \<notin> set xs \<Longrightarrow> filter (\<lambda>y. y \<noteq> x) xs = xs"
  by (induction xs) auto

lemma report_success:
  assumes "threads w n = Some t"
  shows "report e n [] w = (Exited 0, set_thread n (validated e t) w)"
  using assms
  by (auto simp: report_def Let_def get_labels_eq remove_from_labels_eq add_to_labels_eq
      create_comment_eq threads_set_thread set_thread_twice validated_def filter_absent
      upd_thread_eq reply_def)

lemma report_failure:
  assumes "threads w n = Some t" "errors \<noteq> []"
  shows "report e n errors w = (Exited 1, set_thread n (invalidated e errors t) w)"
  using assms
  by (auto simp: report_def Let_def get_labels_eq remove_from_labels_eq add_to_labels_eq
      create_comment_eq threads_set_thread set_thread_twice invalidated_def filter_absent
      upd_thread_eq reply_def)

lemma validate_main_loop:
  assumes "validates e n" "threads w n = Some t" "filter is_manifest (files t) \<noteq> []"
  shows "validate_main P e w =
     (case validate_loop P (fs w) (filter is_manifest (files t)) [] of
        Inl x \<Rightarrow> (Uncaught x, w)
      | Inr errors \<Rightarrow> report e n errors w)"
  using assms
  by (simp add: validate_main_def validates_def env_ok_def get_files_eq Let_def)

lemma success_no_marker: "\<not> contains MARKER_START msg_validation_successful"
  by (auto dest!: marker_needs_lt simp: msg_validation_successful_def check_mark_def)

lemmas validate_simps = validate_one_def check_fields.simps REQUIRED_FIELDS_def check_icon_def
  icon_path_of_def format_value_def check_download_def dict_get_def sha256_bytes_def
  ICON_MAX_SIZE_def ICON_WIDTH_def ICON_HEIGHT_def Let_def demo_platform_def
  demo_manifest_def demo_manifest_text_def demo_null_name_def demo_null_name_text_def
  demo_ledger_text_def demo_partial_def demo_partial_text_def

lemma demo_manifest_valid:
  "validate_one demo_platform
     (map_of [(''manifests/app.json'', demo_manifest_text), (''icons/app.png'', ''png 32x32'')])
     ''manifests/app.json'' = Inr []"
  by (simp add: validate_simps)

lemma demo_lookup_empty: "find_manifest_hash_comment P [] = (None, JNull)"
  by (simp add: find_manifest_hash_comment_def)

lemma contains_check_bot: "contains ''@bot check'' s \<Longrightarrow> contains ''@bot'' s"
  using sublist_append_dest [of "''@bot''" "'' check''" s]
  by (auto simp: contains_iff_sublist)

lemma main_check:
  assumes "env_ok e" "get_pr_number_from_event e = Some n" "threads w n = Some t"
    "contains ''@bot check'' (command_text e)"
  shows "main P e w = handle_check P e n (command_user e) w"
proof -
  have "contains ''@bot'' (command_text e)"
    using assms(4) by (rule contains_check_bot)
  then show ?thesis
    using assms
    by (auto simp: main_def env_ok_def command_text_def command_user_def
        split: option.splits prod.splits)
qed

lemma handle_check_exit: "fst (handle_check P e n u w) = Exited 0"
  by (simp add: handle_check_def Let_def split: prod.splits)

lemma validate_main_exit:
  assumes "validates e n" "threads w n = Some t" "filter is_manifest (files t) \<noteq> []"
    "validate_loop P (fs w) (filter is_manifest (files t)) [] = Inr errors"
  shows "validate_main P e w
       = (if errors = [] then (Exited 0, set_thread n (validated e t) w)
          else (Exited 1, set_thread n (invalidated e errors t) w))"
  using validate_main_loop [OF assms(1,2,3), of P] assms(4)
    report_success [OF assms(2), of e] report_failure [OF assms(2), of errors e]
  by simp

lemma check_with_defects:
  assumes "env_ok e" "get_pr_number_from_event e = Some n" "threads w n = Some t"
    "contains ''@bot check'' (command_text e)" "validates e n"
    "filter is_manifest (files t) \<noteq> []"
    "validate_loop P (fs w) (filter is_manifest (files t)) [] = Inr errors" "errors \<noteq> []"
  shows "main P e w
       = (Exited 0,
          set_thread n
            (reply e msg_completed_with_errors
               (invalidated e errors (reply e (msg_running (command_user e)) t))) w)"
proof -
  let ?t1 = "reply e (msg_running (command_user e)) t"
  let ?w1 = "set_thread n ?t1 w"
  have w1: "create_comment e n (msg_running (command_user e)) w = ?w1"
    by (rule create_comment_eq [OF assms(3)])
  have t1: "threads ?w1 n = Some ?t1" by (rule threads_set_thread)
  have f1: "filter is_manifest (files ?t1) \<noteq> []" using assms(6) by (simp add: reply_def)
  have l1: "validate_loop P (fs ?w1) (filter is_manifest (files ?t1)) [] = Inr errors"
    using assms(7) by (simp add: reply_def fs_set_thread)
  have v: "validate_main P e ?w1 = (Exited 1, set_thread n (invalidated e errors ?t1) w)"
    using validate_main_exit [OF assms(5) t1 f1 l1] assms(8) by (simp add: set_thread_twice)
  have "handle_check P e n (command_user e) w
      = (Exited 0,
         create_comment e n msg_completed_with_errors (set_thread n (invalidated e errors ?t1) w))"
    by (simp add: handle_check_def Let_def w1 v)
  also have "create_comment e n msg_completed_with_errors (set_thread n (invalidated e errors ?t1) w)
      = set_thread n (reply e msg_completed_with_errors (invalidated e errors ?t1)) w"
  proof -
    have "threads (set_thread n (invalidated e errors ?t1) w) n = Some (invalidated e errors ?t1)"
      by (rule threads_set_thread)
    from create_comment_eq [OF this] show ?thesis by (simp add: set_thread_twice)
  qed
  finally show ?thesis
    using main_check [OF assms(1,2,3,4), of P] by simp
qed

lemma main_unauthorized:
  assumes "env_ok e" "get_pr_number_from_event e = Some n" "threads w n = Some t"
    "is_allow_deny e" "command_user e \<noteq> MODERATOR e"
  shows "main P e w = (Exited 0, set_thread n (reply e (msg_not_moderator e) t) w)"
  using assms by (simp add: main_allow_deny handle_allow_deny_def create_comment_eq)













lemma validate_one_unparseable:
  "files_on_disk p = Some data \<Longrightarrow> json_parse P data = Inl x \<Longrightarrow>
   validate_one P files_on_disk p = Inr [msg_invalid_json p x]"
  by (simp add: validate_one_def)

lemma validate_one_not_dict:
  "files_on_disk q = Some data \<Longrightarrow> json_parse P data = Inr m \<Longrightarrow> \<not> is_dict m \<Longrightarrow>
   \<exists>y. validate_one P files_on_disk q = Inl y"
  by (cases m) (simp_all add: validate_one_def)

lemma validate_loop_Inl:
  "q \<in> set ps \<Longrightarrow> validate_one P f q = Inl x \<Longrightarrow> \<exists>y. validate_loop P f ps acc = Inl y"
  by (induction ps arbitrary: acc) (auto split: sum.splits)

lemma validate_loop_all:
  "\<forall>q \<in> set ps. \<exists>es. validate_one P f q = Inr es \<Longrightarrow>
   validate_loop P f ps acc = Inr (acc @ concat (map (defects_of P f) ps))"
  by (induction ps arbitrary: acc) (auto simp: defects_of_def split: sum.splits)













section \<open>The outcomes of the gate\<close>

lemma is_allow_allow_deny: "is_allow e \<Longrightarrow> is_allow_deny e"
  by (simp add: is_allow_def is_allow_deny_def)





lemmas manifest_simps = is_manifest_def startswith_def endswith_def suffix_to_prefix

lemma do_allow_effect:
  assumes "threads w n = Some t"
  shows "\<exists>t'. threads (snd (do_allow e n w)) n = Some t' \<and> merge_calls t' = Suc (merge_calls t)
           \<and> (merge_error t = None \<longrightarrow>
                 fst (do_allow e n w) = Exited 0 \<and> merged t' \<and> ''Approved'' \<in> set (labels t'))"
proof (cases "merge_error t")
  case None
  then show ?thesis
    using assms
    by (simp add: do_allow_def Let_def upd_thread_eq create_comment_eq remove_from_labels_eq
        add_to_labels_eq threads_set_thread set_thread_twice reply_def)
next
  case (Some x)
  then show ?thesis
    using assms
    by (simp add: do_allow_def Let_def upd_thread_eq create_comment_eq threads_set_thread
        set_thread_twice reply_def)
qed

lemma main_no_stored_hashes:
  assumes "env_ok e" "get_pr_number_from_event e = Some n" "threads w n = Some t"
    "is_allow_deny e" "command_user e = MODERATOR e" "''On review'' \<in> set (labels t)"
    "snd (find_manifest_hash_comment P (comments t)) = JNull"
  shows "main P e w = (Exited 0, set_thread n (reply e msg_no_stored_hashes t) w)"
  using assms
  by (auto simp: main_allow_deny handle_allow_deny_def create_comment_eq get_labels_eq
      get_comments_eq split: prod.splits)

section \<open>The newest parseable comment\<close>

text \<open>
  C9. The lookup visits the comments from the newest to the oldest and returns the first
  one that holds the start marker and whose text between the markers parses, with the parsed
  value; a comment that holds the marker but does not parse is passed over for an older one,
  and when none qualifies the result is \<open>(None, None)\<close>. The author of a comment plays no
  part: renaming the authors changes nothing but the author of the returned comment. In the
  gate, a moderator's command on a thread labelled \<open>On review\<close> is decided by the value of
  that newest parseable comment, whoever wrote it: when the value is \<open>None\<close> (the text
  \<open>null\<close>) the command is answered with the must-validate-first reply, and otherwise the
  checkout is compared with that value.
\<close>

theorem lookup_newest_parseable:
  "((\<forall>x \<in> set cs. comment_hashes P x = None) \<longrightarrow>
      find_manifest_hash_comment P cs = (None, JNull))
   \<and> (comment_hashes P c = Some d \<and> (\<forall>x \<in> set newer. comment_hashes P x = None) \<longrightarrow>
      find_manifest_hash_comment P (older @ c # newer) = (Some c, d))
   \<and> find_manifest_hash_comment P (map (\<lambda>c. c\<lparr>user := g c\<rparr>) cs)
       = (map_option (\<lambda>c. c\<lparr>user := g c\<rparr>) (fst (find_manifest_hash_comment P cs)),
          snd (find_manifest_hash_comment P cs))
   \<and> (env_ok e \<and> get_pr_number_from_event e = Some n \<and> threads w n = Some t
       \<and> is_allow_deny e \<and> command_user e = MODERATOR e \<and> ''On review'' \<in> set (labels t)
       \<and> comments t = older @ c # newer \<and> comment_hashes P c = Some d
       \<and> (\<forall>x \<in> set newer. comment_hashes P x = None) \<longrightarrow>
      main P e w = (if d = JNull then (Exited 0, set_thread n (reply e msg_no_stored_hashes t) w)
                    else compare_and_act P e n (command_text e) d w))"
proof -
  have gate: "main P e w = (if d = JNull then (Exited 0, set_thread n (reply e msg_no_stored_hashes t) w)
                    else compare_and_act P e n (command_text e) d w)"
    if h: "env_ok e" "get_pr_number_from_event e = Some n" "threads w n = Some t"
      "is_allow_deny e" "command_user e = MODERATOR e" "''On review'' \<in> set (labels t)"
      and c: "comments t = older @ c # newer" "comment_hashes P c = Some d"
      "\<forall>x \<in> set newer. comment_hashes P x = None"
  proof -
    have f: "find_manifest_hash_comment P (comments t) = (Some c, d)"
      using c find_newest by simp
    show ?thesis
    proof (cases "d = JNull")
      case True
      then have "snd (find_manifest_hash_comment P (comments t)) = JNull" using f by simp
      from main_no_stored_hashes [OF h this] True show ?thesis by simp
    next
      case False
      then have "snd (find_manifest_hash_comment P (comments t)) \<noteq> JNull" using f by simp
      from main_gate_passed [OF h this] f False show ?thesis by simp
    qed
  qed
  show ?thesis
    using find_none [of cs P] find_newest [of P c d newer older] find_users [of P g cs] gate
    by blast
qed

theorem lookup_newest_parseable_witness:
  "comment_hashes demo_platform demo_broken_comment = None
   \<and> find_manifest_hash_comment demo_platform [demo_broken_comment] = (None, JNull)
   \<and> comment_hashes demo_platform demo_ledger_comment = Some demo_ledger
   \<and> find_manifest_hash_comment demo_platform ([] @ demo_ledger_comment # [demo_broken_comment])
        = (Some demo_ledger_comment, demo_ledger)
   \<and> env_ok (demo_command ''@bot allow'' ''Artyomka628'')
   \<and> get_pr_number_from_event (demo_command ''@bot allow'' ''Artyomka628'') = Some 7
   \<and> threads (demo_world (demo_thread [''On review''] [demo_ledger_comment, demo_broken_comment]
                  [''README.md'']) []) 7
        = Some (demo_thread [''On review''] [demo_ledger_comment, demo_broken_comment] [''README.md''])
   \<and> is_allow_deny (demo_command ''@bot allow'' ''Artyomka628'')
   \<and> command_user (demo_command ''@bot allow'' ''Artyomka628'')
        = MODERATOR (demo_command ''@bot allow'' ''Artyomka628'')
   \<and> ''On review'' \<in> set (labels (demo_thread [''On review''] [demo_ledger_comment, demo_broken_comment]
                                   [''README.md'']))
   \<and> comments (demo_thread [''On review''] [demo_ledger_comment, demo_broken_comment] [''README.md''])
        = [] @ demo_ledger_comment # [demo_broken_comment]
   \<and> demo_ledger \<noteq> JNull
   \<and> main demo_platform (demo_command ''@bot allow'' ''Artyomka628'')
        (demo_world (demo_thread [''On review''] [demo_ledger_comment, demo_broken_comment]
            [''README.md'']) [])
      = compare_and_act demo_platform (demo_command ''@bot allow'' ''Artyomka628'') 7
          (command_text (demo_command ''@bot allow'' ''Artyomka628'')) demo_ledger
          (demo_world (demo_thread [''On review''] [demo_ledger_comment, demo_broken_comment]
            [''README.md'']) [])"
proof -
  let ?e = "demo_command ''@bot allow'' ''Artyomka628''"
  let ?t = "demo_thread [''On review''] [demo_ledger_comment, demo_broken_comment] [''README.md'']"
  let ?w = "demo_world ?t []"
  have a: "\<forall>x \<in> set [demo_broken_comment]. comment_hashes demo_platform x = None"
    by (simp add: demo_broken_hashes)
  have h1: "env_ok ?e" by (simp add: demo_simps)
  have h2: "get_pr_number_from_event ?e = Some 7" by (simp add: demo_simps)
  have h3: "threads ?w 7 = Some ?t" by (simp add: demo_simps)
  have h4: "is_allow_deny ?e" by (simp add: demo_simps)
  have h5: "command_user ?e = MODERATOR ?e" by (simp add: demo_simps)
  have h6: "''On review'' \<in> set (labels ?t)" by (simp add: demo_simps)
  have h7: "comments ?t = [] @ demo_ledger_comment # [demo_broken_comment]" by (simp add: demo_simps)
  have h8: "demo_ledger \<noteq> JNull" by (simp add: demo_ledger_def)
  note inst = lookup_newest_parseable [where cs = "[demo_broken_comment]" and P = demo_platform
      and c = demo_ledger_comment and d = demo_ledger and newer = "[demo_broken_comment]"
      and older = "[]" and e = ?e and n = 7 and w = ?w and t = ?t]
  from inst a demo_ledger_hashes h1 h2 h3 h4 h5 h6 h7 h8
  have m: "main demo_platform ?e ?w
      = compare_and_act demo_platform ?e 7 (command_text ?e) demo_ledger ?w"
    by simp
  show ?thesis
    using inst a demo_broken_hashes demo_ledger_hashes h1 h2 h3 h4 h5 h6 h7 h8 m by blast
qed

text \<open>
  The value of the newest parseable comment may be \<open>None\<close>: with an older comment that
  records the digest the file still has and a newer one whose text is \<open>null\<close>, the lookup
  returns the newer one, and the moderator's allow command is answered with the
  must-validate-first reply; nothing is compared.
\<close>

theorem lookup_null_counterexample:
  "is_allow (demo_command ''@bot allow'' ''Artyomka628'')
   \<and> command_user (demo_command ''@bot allow'' ''Artyomka628'')
       = MODERATOR (demo_command ''@bot allow'' ''Artyomka628'')
   \<and> comment_hashes demo_platform demo_ledger_comment = Some demo_ledger
   \<and> comment_hashes demo_platform demo_null_comment = Some JNull
   \<and> find_manifest_hash_comment demo_platform [demo_ledger_comment, demo_null_comment]
       = (Some demo_null_comment, JNull)
   \<and> main demo_platform (demo_command ''@bot allow'' ''Artyomka628'')
        (demo_world (demo_thread [''On review''] [demo_ledger_comment, demo_null_comment]
                       [''manifests/app.json''])
           [(''manifests/app.json'', ''old'')])
      = (Exited 0,
         set_thread 7
           (reply (demo_command ''@bot allow'' ''Artyomka628'') msg_no_stored_hashes
              (demo_thread [''On review''] [demo_ledger_comment, demo_null_comment]
                 [''manifests/app.json'']))
           (demo_world (demo_thread [''On review''] [demo_ledger_comment, demo_null_comment]
                          [''manifests/app.json''])
              [(''manifests/app.json'', ''old'')]))
   \<and> stale_reason demo_platform (map_of [(''manifests/app.json'', ''old'')])
         [(''manifests/app.json'', JStr ''h-old'')] ''manifests/app.json'' = []"
proof -
  let ?e = "demo_command ''@bot allow'' ''Artyomka628''"
  let ?t = "demo_thread [''On review''] [demo_ledger_comment, demo_null_comment] [''manifests/app.json'']"
  let ?w = "demo_world ?t [(''manifests/app.json'', ''old'')]"
  have h1: "env_ok ?e" by (simp add: demo_simps)
  have h2: "get_pr_number_from_event ?e = Some 7" by (simp add: demo_simps)
  have h3: "threads ?w 7 = Some ?t" by (simp add: demo_simps)
  have h4: "is_allow ?e" by (simp add: demo_simps)
  have h5: "command_user ?e = MODERATOR ?e" by (simp add: demo_simps)
  have h6: "''On review'' \<in> set (labels ?t)" by (simp add: demo_simps)
  have "find_manifest_hash_comment demo_platform ([demo_ledger_comment] @ demo_null_comment # [])
      = (Some demo_null_comment, JNull)"
    by (rule find_newest [OF demo_null_hashes]) simp
  then have f: "find_manifest_hash_comment demo_platform [demo_ledger_comment, demo_null_comment]
      = (Some demo_null_comment, JNull)"
    by simp
  then have h7: "snd (find_manifest_hash_comment demo_platform (comments ?t)) = JNull"
    by (simp add: demo_thread_def)
  have m: "main demo_platform ?e ?w = (Exited 0, set_thread 7 (reply ?e msg_no_stored_hashes ?t) ?w)"
    by (rule main_no_stored_hashes [OF h1 h2 h3 is_allow_allow_deny [OF h4] h5 h6 h7])
  have s: "stale_reason demo_platform (map_of [(''manifests/app.json'', ''old'')])
         [(''manifests/app.json'', JStr ''h-old'')] ''manifests/app.json'' = []"
    by (simp add: stale_reason_def demo_platform_def dict_get_def)
  show ?thesis
    using h4 h5 demo_ledger_hashes demo_null_hashes f m s by blast
qed

section \<open>The approval gate\<close>

text \<open>
  C3. An allow or deny command of the moderator passes the gate checks in order. When the
  thread does not carry the label \<open>On review\<close>, the run ends with the not-on-review reply
  and nothing else: whatever the comments hold, the lookup is not consulted. When it does
  and the lookup finds no stored hashes, the run ends with the reply that the pull request
  must be validated first. In both cases the only change to the thread is the reply: labels,
  the merge and close counters and flags stay as they were, so neither the merge nor the
  close request is made.
\<close>

theorem gate_order:
  assumes "env_ok e" and "get_pr_number_from_event e = Some n" and "threads w n = Some t"
    and "is_allow_deny e" and "command_user e = MODERATOR e"
  shows "(''On review'' \<notin> set (labels t) \<longrightarrow>
            main P e w = (Exited 0, set_thread n (reply e msg_not_on_review t) w))
       \<and> (''On review'' \<in> set (labels t)
            \<and> snd (find_manifest_hash_comment P (comments t)) = JNull \<longrightarrow>
            main P e w = (Exited 0, set_thread n (reply e msg_no_stored_hashes t) w))
       \<and> labels (reply e text t) = labels t
       \<and> merged (reply e text t) = merged t \<and> closed (reply e text t) = closed t
       \<and> merge_calls (reply e text t) = merge_calls t
       \<and> close_calls (reply e text t) = close_calls t"
  using assms
  by (auto simp: main_allow_deny handle_allow_deny_def create_comment_eq get_labels_eq
      get_comments_eq reply_def split: prod.splits)

theorem gate_order_witness:
  "env_ok (demo_command ''@bot allow'' ''Artyomka628'')
   \<and> get_pr_number_from_event (demo_command ''@bot allow'' ''Artyomka628'') = Some 7
   \<and> is_allow_deny (demo_command ''@bot allow'' ''Artyomka628'')
   \<and> command_user (demo_command ''@bot allow'' ''Artyomka628'') = MODERATOR (demo_command ''@bot allow'' ''Artyomka628'')
   \<and> threads (demo_world (demo_thread [] [demo_ledger_comment] []) []) 7 = Some (demo_thread [] [demo_ledger_comment] [])
   \<and> ''On review'' \<notin> set (labels (demo_thread [] [demo_ledger_comment] []))
   \<and> main demo_platform (demo_command ''@bot allow'' ''Artyomka628'') (demo_world (demo_thread [] [demo_ledger_comment] []) [])
       = (Exited 0, set_thread 7 (reply (demo_command ''@bot allow'' ''Artyomka628'') msg_not_on_review
              (demo_thread [] [demo_ledger_comment] [])) (demo_world (demo_thread [] [demo_ledger_comment] []) []))
   \<and> threads (demo_world (demo_thread [''On review''] [] []) []) 7 = Some (demo_thread [''On review''] [] [])
   \<and> ''On review'' \<in> set (labels (demo_thread [''On review''] [] []))
   \<and> snd (find_manifest_hash_comment demo_platform (comments (demo_thread [''On review''] [] []))) = JNull
   \<and> main demo_platform (demo_command ''@bot allow'' ''Artyomka628'') (demo_world (demo_thread [''On review''] [] []) [])
       = (Exited 0, set_thread 7 (reply (demo_command ''@bot allow'' ''Artyomka628'') msg_no_stored_hashes
              (demo_thread [''On review''] [] [])) (demo_world (demo_thread [''On review''] [] []) []))"
proof -
  let ?e = "demo_command ''@bot allow'' ''Artyomka628''"
  let ?t1 = "demo_thread [] [demo_ledger_comment] []"
  let ?t2 = "demo_thread [''On review''] [] []"
  have h1: "env_ok ?e" by (simp add: demo_simps)
  have h2: "get_pr_number_from_event ?e = Some 7" by (simp add: demo_simps)
  have h4: "is_allow_deny ?e" by (simp add: demo_simps)
  have h5: "command_user ?e = MODERATOR ?e" by (simp add: demo_simps)
  have a3: "threads (demo_world ?t1 []) 7 = Some ?t1" by (simp add: demo_simps)
  have a6: "''On review'' \<notin> set (labels ?t1)" by (simp add: demo_simps)
  have b3: "threads (demo_world ?t2 []) 7 = Some ?t2" by (simp add: demo_simps)
  have b6: "''On review'' \<in> set (labels ?t2)" by (simp add: demo_simps)
  have b7: "snd (find_manifest_hash_comment demo_platform (comments ?t2)) = JNull"
    by (simp add: demo_simps find_manifest_hash_comment_def)
  show ?thesis
    using gate_order [OF h1 h2 a3 h4 h5, of demo_platform] gate_order [OF h1 h2 b3 h4 h5, of demo_platform]
      h1 h2 h4 h5 a3 a6 b3 b6 b7
    by simp
qed

section \<open>Authorization\<close>

text \<open>
  C5. An allow or deny command whose author is not the moderator is answered with the
  only-the-moderator reply and status 0. The reply is the only change: the labels, the merge
  and close counters and flags are untouched, and, the moderator's login holding no \<open><\<close>,
  the reply carries no marker, so the stored-hash lookup returns what it returned before.
\<close>

theorem unauthorized_rejected:
  assumes "env_ok e" and "get_pr_number_from_event e = Some n" and "threads w n = Some t"
    and "is_allow_deny e" and "command_user e \<noteq> MODERATOR e"
  shows "main P e w = (Exited 0, set_thread n (reply e (msg_not_moderator e) t) w)
       \<and> labels (reply e (msg_not_moderator e) t) = labels t
       \<and> merged (reply e (msg_not_moderator e) t) = merged t
       \<and> closed (reply e (msg_not_moderator e) t) = closed t
       \<and> merge_calls (reply e (msg_not_moderator e) t) = merge_calls t
       \<and> close_calls (reply e (msg_not_moderator e) t) = close_calls t
       \<and> (CHR ''<'' \<notin> set (MODERATOR e) \<longrightarrow>
            find_manifest_hash_comment P (comments (reply e (msg_not_moderator e) t))
              = find_manifest_hash_comment P (comments t))"
proof -
  have "main P e w = (Exited 0, set_thread n (reply e (msg_not_moderator e) t) w)"
    using assms by (simp add: main_allow_deny handle_allow_deny_def create_comment_eq)
  moreover have "CHR ''<'' \<notin> set (MODERATOR e) \<longrightarrow>
            find_manifest_hash_comment P (comments (reply e (msg_not_moderator e) t))
              = find_manifest_hash_comment P (comments t)"
    by (simp add: reply_def find_hash_comment_snoc not_moderator_no_marker)
  ultimately show ?thesis by (simp add: reply_def)
qed

theorem unauthorized_rejected_witness:
  "env_ok (demo_command ''@bot allow'' ''mallory'')
   \<and> get_pr_number_from_event (demo_command ''@bot allow'' ''mallory'') = Some 7
   \<and> threads (demo_world (demo_thread [''On review''] [demo_ledger_comment] [''manifests/app.json'']) []) 7
        = Some (demo_thread [''On review''] [demo_ledger_comment] [''manifests/app.json''])
   \<and> is_allow_deny (demo_command ''@bot allow'' ''mallory'')
   \<and> command_user (demo_command ''@bot allow'' ''mallory'') \<noteq> MODERATOR (demo_command ''@bot allow'' ''mallory'')
   \<and> CHR ''<'' \<notin> set (MODERATOR (demo_command ''@bot allow'' ''mallory''))
   \<and> main demo_platform (demo_command ''@bot allow'' ''mallory'')
        (demo_world (demo_thread [''On review''] [demo_ledger_comment] [''manifests/app.json'']) [])
      = (Exited 0,
         set_thread 7
           (reply (demo_command ''@bot allow'' ''mallory'')
              (msg_not_moderator (demo_command ''@bot allow'' ''mallory''))
              (demo_thread [''On review''] [demo_ledger_comment] [''manifests/app.json'']))
           (demo_world (demo_thread [''On review''] [demo_ledger_comment] [''manifests/app.json'']) []))
   \<and> find_manifest_hash_comment demo_platform
        (comments (reply (demo_command ''@bot allow'' ''mallory'')
              (msg_not_moderator (demo_command ''@bot allow'' ''mallory''))
              (demo_thread [''On review''] [demo_ledger_comment] [''manifests/app.json''])))
      = find_manifest_hash_comment demo_platform
          (comments (demo_thread [''On review''] [demo_ledger_comment] [''manifests/app.json'']))"
proof -
  let ?e = "demo_command ''@bot allow'' ''mallory''"
  let ?t = "demo_thread [''On review''] [demo_ledger_comment] [''manifests/app.json'']"
  let ?w = "demo_world ?t []"
  have h1: "env_ok ?e" by (simp add: demo_simps)
  have h2: "get_pr_number_from_event ?e = Some 7" by (simp add: demo_simps)
  have h3: "threads ?w 7 = Some ?t" by (simp add: demo_simps)
  have h4: "is_allow_deny ?e" by (simp add: demo_simps)
  have h5: "command_user ?e \<noteq> MODERATOR ?e" by (simp add: demo_simps)
  have h6: "CHR ''<'' \<notin> set (MODERATOR ?e)" by (simp add: demo_simps)
  show ?thesis
    using unauthorized_rejected [OF h1 h2 h3 h4 h5, of demo_platform] h1 h2 h3 h4 h5 h6
    by simp
qed

text \<open>
  Without the condition on the moderator's login the stored-hash lookup can change: with
  \<open>BOT_USER\<close> set to a text that holds both markers around \<open>[]\<close>, the reply to \<open>mallory\<close>
  is itself the newest comment the lookup accepts, and the lookup's value goes from the
  recorded mapping to the empty list.
\<close>

theorem unauthorized_rejected_marker_counterexample:
  "is_allow_deny demo_marker_command
   \<and> command_user demo_marker_command \<noteq> MODERATOR demo_marker_command
   \<and> main demo_platform demo_marker_command
        (demo_world (demo_thread [''On review''] [demo_ledger_comment] [''manifests/app.json'']) [])
      = (Exited 0,
         set_thread 7
           (reply demo_marker_command (msg_not_moderator demo_marker_command)
              (demo_thread [''On review''] [demo_ledger_comment] [''manifests/app.json'']))
           (demo_world (demo_thread [''On review''] [demo_ledger_comment] [''manifests/app.json'']) []))
   \<and> snd (find_manifest_hash_comment demo_platform
        (comments (demo_thread [''On review''] [demo_ledger_comment] [''manifests/app.json''])))
      = JObj [(''manifests/app.json'', JStr ''h-old'')]
   \<and> snd (find_manifest_hash_comment demo_platform
        (comments (reply demo_marker_command (msg_not_moderator demo_marker_command)
              (demo_thread [''On review''] [demo_ledger_comment] [''manifests/app.json'']))))
      = JArr []"
proof -
  let ?e = "demo_marker_command"
  let ?t = "demo_thread [''On review''] [demo_ledger_comment] [''manifests/app.json'']"
  let ?w = "demo_world ?t []"
  let ?c = "\<lparr>user = token_user ?e, body = Some (msg_not_moderator ?e)\<rparr>"
  have h1: "env_ok ?e" by (simp add: demo_marker_command_def demo_simps)
  have h2: "get_pr_number_from_event ?e = Some 7" by (simp add: demo_marker_command_def demo_simps)
  have h3: "threads ?w 7 = Some ?t" by (simp add: demo_simps)
  have h4: "is_allow_deny ?e" by (simp add: demo_marker_command_def demo_simps)
  have h5: "command_user ?e \<noteq> MODERATOR ?e" by (simp add: demo_marker_command_def demo_simps)
  have m: "main demo_platform ?e ?w = (Exited 0, set_thread 7 (reply ?e (msg_not_moderator ?e) ?t) ?w)"
    using h1 h2 h3 h4 h5 by (simp add: main_allow_deny handle_allow_deny_def create_comment_eq)
  have "find_manifest_hash_comment demo_platform ([] @ demo_ledger_comment # [])
      = (Some demo_ledger_comment, demo_ledger)"
    by (rule find_newest [OF demo_ledger_hashes]) simp
  then have before: "snd (find_manifest_hash_comment demo_platform (comments ?t))
      = JObj [(''manifests/app.json'', JStr ''h-old'')]"
    by (simp add: demo_thread_def demo_ledger_def)
  have c: "comment_hashes demo_platform ?c = Some (JArr [])"
    by (simp add: lookup_simps msg_not_moderator_def MODERATOR_def demo_marker_command_def
        demo_command_def cross_mark_def)
  have "find_manifest_hash_comment demo_platform ([demo_ledger_comment] @ ?c # [])
      = (Some ?c, JArr [])"
    by (rule find_newest [OF c]) simp
  then have after: "snd (find_manifest_hash_comment demo_platform
        (comments (reply ?e (msg_not_moderator ?e) ?t))) = JArr []"
    by (simp add: reply_def demo_thread_def)
  show ?thesis
    using h4 h5 m before after by blast
qed

section \<open>The integrity lock\<close>



section \<open>A submission without manifests\<close>

text \<open>
  C10. When no changed file is a manifest path, the comparison has nothing to compare: an
  allow command of the moderator on a thread labelled \<open>On review\<close>, the lookup returning a
  value other than \<open>None\<close>, goes on to the merge request (the merge counter grows by one;
  when the host accepts the merge the thread is merged, labelled \<open>Approved\<close>, and the status
  is 0). A stored comment whose text parses to JSON \<open>null\<close> is parseable, yet the lookup's
  value is then \<open>None\<close> and the gate answers that no stored hashes were found.
\<close>

theorem vacuous_pass:
  assumes "env_ok e" and "get_pr_number_from_event e = Some n" and "threads w n = Some t"
    and "is_allow e" and "command_user e = MODERATOR e" and "''On review'' \<in> set (labels t)"
    and "snd (find_manifest_hash_comment P (comments t)) \<noteq> JNull"
    and "\<forall>f \<in> set (files t). \<not> is_manifest f"
  shows "main P e w = do_allow e n w
       \<and> (\<exists>t'. threads (snd (main P e w)) n = Some t' \<and> merge_calls t' = Suc (merge_calls t)
             \<and> (merge_error t = None \<longrightarrow>
                   fst (main P e w) = Exited 0 \<and> merged t' \<and> ''Approved'' \<in> set (labels t')))"
proof -
  have "main P e w
      = compare_and_act P e n (command_text e) (snd (find_manifest_hash_comment P (comments t))) w"
    by (rule main_gate_passed [OF assms(1,2,3) is_allow_allow_deny [OF assms(4)] assms(5,6,7)])
  also have "\<dots> = do_allow e n w"
    using assms(4) by (simp add: compare_and_act_no_manifests [OF assms(3,8)] is_allow_def)
  finally have m: "main P e w = do_allow e n w" .
  show ?thesis
    using do_allow_effect [OF assms(3), of e] by (simp add: m)
qed

theorem vacuous_pass_witness:
  "env_ok (demo_command ''@bot allow'' ''Artyomka628'')
   \<and> get_pr_number_from_event (demo_command ''@bot allow'' ''Artyomka628'') = Some 7
   \<and> threads (demo_world (demo_thread [''On review''] [demo_ledger_comment] [''README.md'']) []) 7
       = Some (demo_thread [''On review''] [demo_ledger_comment] [''README.md''])
   \<and> is_allow (demo_command ''@bot allow'' ''Artyomka628'')
   \<and> command_user (demo_command ''@bot allow'' ''Artyomka628'')
       = MODERATOR (demo_command ''@bot allow'' ''Artyomka628'')
   \<and> ''On review'' \<in> set (labels (demo_thread [''On review''] [demo_ledger_comment] [''README.md'']))
   \<and> snd (find_manifest_hash_comment demo_platform
             (comments (demo_thread [''On review''] [demo_ledger_comment] [''README.md''])))
       \<noteq> JNull
   \<and> files (demo_thread [''On review''] [demo_ledger_comment] [''README.md'']) = [''README.md'']
   \<and> \<not> is_manifest ''README.md''
   \<and> main demo_platform (demo_command ''@bot allow'' ''Artyomka628'')
        (demo_world (demo_thread [''On review''] [demo_ledger_comment] [''README.md'']) [])
      = do_allow (demo_command ''@bot allow'' ''Artyomka628'') 7
          (demo_world (demo_thread [''On review''] [demo_ledger_comment] [''README.md'']) [])"
proof -
  let ?e = "demo_command ''@bot allow'' ''Artyomka628''"
  let ?t = "demo_thread [''On review''] [demo_ledger_comment] [''README.md'']"
  let ?w = "demo_world ?t []"
  have h1: "env_ok ?e" by (simp add: demo_simps)
  have h2: "get_pr_number_from_event ?e = Some 7" by (simp add: demo_simps)
  have h3: "threads ?w 7 = Some ?t" by (simp add: demo_simps)
  have h4: "is_allow ?e" by (simp add: demo_simps)
  have h5: "command_user ?e = MODERATOR ?e" by (simp add: demo_simps)
  have h6: "''On review'' \<in> set (labels ?t)" by (simp add: demo_simps)
  have "find_manifest_hash_comment demo_platform ([] @ demo_ledger_comment # [])
      = (Some demo_ledger_comment, demo_ledger)"
    by (rule find_newest [OF demo_ledger_hashes]) simp
  then have h7: "snd (find_manifest_hash_comment demo_platform (comments ?t)) \<noteq> JNull"
    by (simp add: demo_thread_def demo_ledger_def)
  have h8: "\<forall>f \<in> set (files ?t). \<not> is_manifest f"
    by (simp add: demo_thread_def manifest_simps)
  have h9: "files ?t = [''README.md'']" by (simp add: demo_thread_def)
  have h10: "\<not> is_manifest ''README.md''" by (simp add: manifest_simps)
  show ?thesis
    using vacuous_pass [OF h1 h2 h3 h4 h5 h6 h7 h8] h1 h2 h3 h4 h5 h6 h7 h9 h10 by blast
qed

theorem vacuous_pass_null_counterexample:
  "comment_hashes demo_platform demo_null_comment = Some JNull
   \<and> is_allow (demo_command ''@bot allow'' ''Artyomka628'')
   \<and> command_user (demo_command ''@bot allow'' ''Artyomka628'')
       = MODERATOR (demo_command ''@bot allow'' ''Artyomka628'')
   \<and> \<not> is_manifest ''README.md''
   \<and> main demo_platform (demo_command ''@bot allow'' ''Artyomka628'')
        (demo_world (demo_thread [''On review''] [demo_null_comment] [''README.md'']) [])
      = (Exited 0,
         set_thread 7
           (reply (demo_command ''@bot allow'' ''Artyomka628'') msg_no_stored_hashes
              (demo_thread [''On review''] [demo_null_comment] [''README.md'']))
           (demo_world (demo_thread [''On review''] [demo_null_comment] [''README.md'']) []))
   \<and> merge_calls (reply (demo_command ''@bot allow'' ''Artyomka628'') msg_no_stored_hashes
              (demo_thread [''On review''] [demo_null_comment] [''README.md''])) = 0"
proof -
  let ?e = "demo_command ''@bot allow'' ''Artyomka628''"
  let ?t = "demo_thread [''On review''] [demo_null_comment] [''README.md'']"
  let ?w = "demo_world ?t []"
  have h1: "env_ok ?e" by (simp add: demo_simps)
  have h2: "get_pr_number_from_event ?e = Some 7" by (simp add: demo_simps)
  have h3: "threads ?w 7 = Some ?t" by (simp add: demo_simps)
  have h4: "is_allow ?e" by (simp add: demo_simps)
  have h5: "command_user ?e = MODERATOR ?e" by (simp add: demo_simps)
  have h6: "''On review'' \<in> set (labels ?t)" by (simp add: demo_simps)
  have "find_manifest_hash_comment demo_platform ([] @ demo_null_comment # [])
      = (Some demo_null_comment, JNull)"
    by (rule find_newest [OF demo_null_hashes]) simp
  then have h7: "snd (find_manifest_hash_comment demo_platform (comments ?t)) = JNull"
    by (simp add: demo_thread_def)
  have h8: "\<not> is_manifest ''README.md''" by (simp add: manifest_simps)
  have m: "main demo_platform ?e ?w = (Exited 0, set_thread 7 (reply ?e msg_no_stored_hashes ?t) ?w)"
    by (rule main_no_stored_hashes [OF h1 h2 h3 is_allow_allow_deny [OF h4] h5 h6 h7])
  have c: "merge_calls (reply ?e msg_no_stored_hashes ?t) = 0"
    by (simp add: reply_def demo_thread_def)
  show ?thesis
    using demo_null_hashes h4 h5 h8 m c by blast
qed

section \<open>What a successful validation leaves behind\<close>

text \<open>
  C1. A validation run that finds no defect ends with status 0, leaves the thread labelled
  \<open>On review\<close>, and posts one comment, the success message. That message holds no start
  marker, so the run records no hashes: the stored-hash lookup returns after the run what it
  returned before it. On a thread without an earlier marker comment the lookup therefore
  still finds nothing, and the moderator's allow command that follows is answered with the
  must-validate-first reply.
\<close>

theorem success_records_no_hashes:
  assumes "validates e n" and "threads w n = Some t"
    and "filter is_manifest (files t) \<noteq> []"
    and "validate_loop P (fs w) (filter is_manifest (files t)) [] = Inr []"
  shows "validate_main P e w = (Exited 0, set_thread n (validated e t) w)
       \<and> ''On review'' \<in> set (labels (validated e t))
       \<and> comments (validated e t)
           = comments t @ [\<lparr>user = token_user e, body = Some msg_validation_successful\<rparr>]
       \<and> \<not> contains MARKER_START msg_validation_successful
       \<and> find_manifest_hash_comment P (comments (validated e t))
           = find_manifest_hash_comment P (comments t)"
proof -
  have "validate_main P e w = (Exited 0, set_thread n (validated e t) w)"
    using validate_main_loop [OF assms(1,2,3), of P] assms(4) report_success [OF assms(2), of e]
    by simp
  moreover have "find_manifest_hash_comment P (comments (validated e t))
           = find_manifest_hash_comment P (comments t)"
    by (simp add: validated_def find_hash_comment_snoc success_no_marker)
  ultimately show ?thesis
    using success_no_marker by (simp add: validated_def)
qed

theorem success_records_no_hashes_witness:
  "validates demo_pull_request 7
   \<and> threads (demo_world (demo_thread [] [] [''manifests/app.json'', ''icons/app.png''])
                [(''manifests/app.json'', demo_manifest_text), (''icons/app.png'', ''png 32x32'')]) 7
       = Some (demo_thread [] [] [''manifests/app.json'', ''icons/app.png''])
   \<and> filter is_manifest (files (demo_thread [] [] [''manifests/app.json'', ''icons/app.png'']))
       = [''manifests/app.json'']
   \<and> validate_loop demo_platform
         (fs (demo_world (demo_thread [] [] [''manifests/app.json'', ''icons/app.png''])
                [(''manifests/app.json'', demo_manifest_text), (''icons/app.png'', ''png 32x32'')]))
         [''manifests/app.json''] [] = Inr []
   \<and> validate_main demo_platform demo_pull_request
         (demo_world (demo_thread [] [] [''manifests/app.json'', ''icons/app.png''])
                [(''manifests/app.json'', demo_manifest_text), (''icons/app.png'', ''png 32x32'')])
       = (Exited 0,
          set_thread 7
            (validated demo_pull_request (demo_thread [] [] [''manifests/app.json'', ''icons/app.png'']))
            (demo_world (demo_thread [] [] [''manifests/app.json'', ''icons/app.png''])
                [(''manifests/app.json'', demo_manifest_text), (''icons/app.png'', ''png 32x32'')]))
   \<and> labels (validated demo_pull_request (demo_thread [] [] [''manifests/app.json'', ''icons/app.png'']))
       = [''On review'']
   \<and> find_manifest_hash_comment demo_platform
         (comments (validated demo_pull_request
            (demo_thread [] [] [''manifests/app.json'', ''icons/app.png''])))
       = (None, JNull)
   \<and> main demo_platform (demo_command ''@bot allow'' ''Artyomka628'')
         (set_thread 7
            (validated demo_pull_request (demo_thread [] [] [''manifests/app.json'', ''icons/app.png'']))
            (demo_world (demo_thread [] [] [''manifests/app.json'', ''icons/app.png''])
                [(''manifests/app.json'', demo_manifest_text), (''icons/app.png'', ''png 32x32'')]))
       = (Exited 0,
          set_thread 7
            (reply (demo_command ''@bot allow'' ''Artyomka628'') msg_no_stored_hashes
               (validated demo_pull_request
                  (demo_thread [] [] [''manifests/app.json'', ''icons/app.png''])))
            (demo_world (demo_thread [] [] [''manifests/app.json'', ''icons/app.png''])
                [(''manifests/app.json'', demo_manifest_text), (''icons/app.png'', ''png 32x32'')]))"
proof -
  let ?v = "demo_pull_request"
  let ?e = "demo_command ''@bot allow'' ''Artyomka628''"
  let ?t = "demo_thread [] [] [''manifests/app.json'', ''icons/app.png'']"
  let ?w = "demo_world ?t [(''manifests/app.json'', demo_manifest_text), (''icons/app.png'', ''png 32x32'')]"
  have h1: "validates ?v 7" by (simp add: validates_def demo_simps)
  have h2: "threads ?w 7 = Some ?t" by (simp add: demo_simps)
  have h3: "filter is_manifest (files ?t) = [''manifests/app.json'']"
    by (simp add: demo_thread_def manifest_simps)
  then have h3': "filter is_manifest (files ?t) \<noteq> []" by simp
  have h4: "validate_loop demo_platform (fs ?w) [''manifests/app.json''] [] = Inr []"
    by (simp add: demo_world_def demo_manifest_valid del: map_of.simps)
  then have h4': "validate_loop demo_platform (fs ?w) (filter is_manifest (files ?t)) [] = Inr []"
    using h3 by simp
  note inst = success_records_no_hashes [OF h1 h2 h3' h4']
  have l: "labels (validated ?v ?t) = [''On review'']"
    by (simp add: validated_def demo_thread_def)
  have f0: "find_manifest_hash_comment demo_platform (comments ?t) = (None, JNull)"
    by (simp add: demo_thread_def demo_lookup_empty)
  from inst have "find_manifest_hash_comment demo_platform (comments (validated ?v ?t))
      = find_manifest_hash_comment demo_platform (comments ?t)"
    by blast
  then have f: "find_manifest_hash_comment demo_platform (comments (validated ?v ?t)) = (None, JNull)"
    using f0 by (rule trans)
  have e1: "env_ok ?e" by (simp add: demo_simps)
  have e2: "get_pr_number_from_event ?e = Some 7" by (simp add: demo_simps)
  have e3: "threads (set_thread 7 (validated ?v ?t) ?w) 7 = Some (validated ?v ?t)"
    by (rule threads_set_thread)
  have e4: "is_allow_deny ?e" by (simp add: demo_simps)
  have e5: "command_user ?e = MODERATOR ?e" by (simp add: demo_simps)
  have e6: "''On review'' \<in> set (labels (validated ?v ?t))" using l by simp
  have e7: "snd (find_manifest_hash_comment demo_platform (comments (validated ?v ?t))) = JNull"
    using f by simp
  have m: "main demo_platform ?e (set_thread 7 (validated ?v ?t) ?w)
      = (Exited 0, set_thread 7 (reply ?e msg_no_stored_hashes (validated ?v ?t)) ?w)"
    using main_no_stored_hashes [OF e1 e2 e3 e4 e5 e6 e7] by (simp add: set_thread_twice)
  show ?thesis
    using inst h1 h2 h3 h4 l f m by blast
qed

section \<open>The exit status\<close>

text \<open>
  C4. The exit status of the validator tells whether it found defects: 0 when there is no
  manifest to look at or the loop ends with no defect, 1 when it ends with some. The dispatcher does not pass that status on: a
  check command ends with status 0 whatever the validation it runs finds, the outcome being
  posted as a comment only, and an allow or deny command by someone other than the moderator
  is answered and also ends with status 0.
\<close>

theorem exit_status:
  assumes "env_ok e" and "threads w n = Some t"
  shows "(validates e n \<and> filter is_manifest (files t) \<noteq> []
           \<and> validate_loop P (fs w) (filter is_manifest (files t)) [] = Inr errors \<longrightarrow>
            fst (validate_main P e w) = Exited (if errors = [] then 0 else 1))
       \<and> (validates e n \<and> filter is_manifest (files t) = [] \<longrightarrow>
            validate_main P e w = (Exited 0, w))
       \<and> (get_pr_number_from_event e = Some n \<and> contains ''@bot check'' (command_text e) \<longrightarrow>
            fst (main P e w) = Exited 0)
       \<and> (get_pr_number_from_event e = Some n \<and> contains ''@bot check'' (command_text e)
           \<and> validates e n \<and> filter is_manifest (files t) \<noteq> []
           \<and> validate_loop P (fs w) (filter is_manifest (files t)) [] = Inr errors
           \<and> errors \<noteq> [] \<longrightarrow>
            main P e w
              = (Exited 0,
                 set_thread n
                   (reply e msg_completed_with_errors
                      (invalidated e errors (reply e (msg_running (command_user e)) t))) w))
       \<and> (get_pr_number_from_event e = Some n \<and> is_allow_deny e
           \<and> command_user e \<noteq> MODERATOR e \<longrightarrow>
            fst (main P e w) = Exited 0)"
proof (intro conjI impI)
  assume "validates e n \<and> filter is_manifest (files t) \<noteq> []
           \<and> validate_loop P (fs w) (filter is_manifest (files t)) [] = Inr errors"
  then show "fst (validate_main P e w) = Exited (if errors = [] then 0 else 1)"
    using validate_main_exit [of e n w t P errors] assms(2) by simp
next
  assume "validates e n \<and> filter is_manifest (files t) = []"
  then show "validate_main P e w = (Exited 0, w)"
    using assms(2) by (simp add: validate_main_def validates_def env_ok_def get_files_eq Let_def)
next
  assume "get_pr_number_from_event e = Some n \<and> contains ''@bot check'' (command_text e)"
  then show "fst (main P e w) = Exited 0"
    using main_check [of e n w t P] assms by (simp add: handle_check_exit)
next
  assume "get_pr_number_from_event e = Some n \<and> contains ''@bot check'' (command_text e)
           \<and> validates e n \<and> filter is_manifest (files t) \<noteq> []
           \<and> validate_loop P (fs w) (filter is_manifest (files t)) [] = Inr errors
           \<and> errors \<noteq> []"
  then show "main P e w
              = (Exited 0,
                 set_thread n
                   (reply e msg_completed_with_errors
                      (invalidated e errors (reply e (msg_running (command_user e)) t))) w)"
    using check_with_defects [of e n w t P errors] assms by simp
next
  assume "get_pr_number_from_event e = Some n \<and> is_allow_deny e
           \<and> command_user e \<noteq> MODERATOR e"
  then show "fst (main P e w) = Exited 0"
    using main_unauthorized [of e n w t P] assms by simp
qed

lemma demo_missing_manifest:
  "validate_one demo_platform (map_of []) ''manifests/app.json''
     = Inr [msg_file_not_found ''manifests/app.json'']"
  by (simp add: validate_one_def)

lemma demo_broken_manifest:
  "validate_one demo_platform (map_of [(''manifests/app.json'', ''{'')]) ''manifests/app.json''
     = Inr [msg_invalid_json ''manifests/app.json'' ''Expecting value'']"
  by (simp add: validate_simps)

theorem exit_status_witness:
  "env_ok (demo_command ''@bot check'' ''contributor'')
   \<and> threads (demo_world (demo_thread [] [] [''manifests/app.json'']) []) 7
       = Some (demo_thread [] [] [''manifests/app.json''])
   \<and> validates (demo_command ''@bot check'' ''contributor'') 7
   \<and> filter is_manifest (files (demo_thread [] [] [''manifests/app.json''])) = [''manifests/app.json'']
   \<and> validate_loop demo_platform (fs (demo_world (demo_thread [] [] [''manifests/app.json'']) []))
         [''manifests/app.json''] []
       = Inr [msg_file_not_found ''manifests/app.json'']
   \<and> fst (validate_main demo_platform (demo_command ''@bot check'' ''contributor'')
            (demo_world (demo_thread [] [] [''manifests/app.json'']) [])) = Exited 1
   \<and> get_pr_number_from_event (demo_command ''@bot check'' ''contributor'') = Some 7
   \<and> contains ''@bot check'' (command_text (demo_command ''@bot check'' ''contributor''))
   \<and> fst (main demo_platform (demo_command ''@bot check'' ''contributor'')
            (demo_world (demo_thread [] [] [''manifests/app.json'']) [])) = Exited 0
   \<and> env_ok (demo_command ''@bot deny'' ''mallory'')
   \<and> get_pr_number_from_event (demo_command ''@bot deny'' ''mallory'') = Some 7
   \<and> is_allow_deny (demo_command ''@bot deny'' ''mallory'')
   \<and> command_user (demo_command ''@bot deny'' ''mallory'')
       \<noteq> MODERATOR (demo_command ''@bot deny'' ''mallory'')
   \<and> fst (main demo_platform (demo_command ''@bot deny'' ''mallory'')
            (demo_world (demo_thread [] [] [''manifests/app.json'']) [])) = Exited 0
   \<and> threads (demo_world (demo_thread [] [] [''README.md'']) []) 7
       = Some (demo_thread [] [] [''README.md''])
   \<and> filter is_manifest (files (demo_thread [] [] [''README.md''])) = []
   \<and> validate_main demo_platform (demo_command ''@bot check'' ''contributor'')
         (demo_world (demo_thread [] [] [''README.md'']) [])
       = (Exited 0, demo_world (demo_thread [] [] [''README.md'']) [])"
proof -
  let ?e = "demo_command ''@bot check'' ''contributor''"
  let ?m = "demo_command ''@bot deny'' ''mallory''"
  let ?t = "demo_thread [] [] [''manifests/app.json'']"
  let ?w = "demo_world ?t []"
  let ?errors = "[msg_file_not_found ''manifests/app.json'']"
  have h1: "env_ok ?e" by (simp add: demo_simps)
  have h2: "threads ?w 7 = Some ?t" by (simp add: demo_simps)
  have h3: "validates ?e 7" by (simp add: validates_def demo_simps)
  have h4: "filter is_manifest (files ?t) = [''manifests/app.json'']"
    by (simp add: demo_thread_def manifest_simps)
  have h5: "validate_loop demo_platform (fs ?w) [''manifests/app.json''] [] = Inr ?errors"
    by (simp add: demo_world_def demo_missing_manifest del: map_of.simps)
  have h6: "get_pr_number_from_event ?e = Some 7" by (simp add: demo_simps)
  have h7: "contains ''@bot check'' (command_text ?e)" by (simp add: demo_simps)
  have m1: "env_ok ?m" by (simp add: demo_simps)
  have m2: "get_pr_number_from_event ?m = Some 7" by (simp add: demo_simps)
  have m3: "is_allow_deny ?m" by (simp add: demo_simps)
  have m4: "command_user ?m \<noteq> MODERATOR ?m" by (simp add: demo_simps)
  note a = exit_status [OF h1 h2, of demo_platform ?errors]
  note b = exit_status [OF m1 h2, of demo_platform ?errors]
  have v: "fst (validate_main demo_platform ?e ?w) = Exited 1"
    using a h3 h4 h5 by simp
  have c: "fst (main demo_platform ?e ?w) = Exited 0"
    using a h6 h7 by simp
  have d: "fst (main demo_platform ?m ?w) = Exited 0"
    using b m2 m3 m4 by simp
  have r2: "threads (demo_world (demo_thread [] [] [''README.md'']) []) 7
      = Some (demo_thread [] [] [''README.md''])"
    by (simp add: demo_simps)
  have r4: "filter is_manifest (files (demo_thread [] [] [''README.md''])) = []"
    by (simp add: demo_thread_def manifest_simps)
  have r: "validate_main demo_platform ?e (demo_world (demo_thread [] [] [''README.md'']) [])
      = (Exited 0, demo_world (demo_thread [] [] [''README.md'']) [])"
    using exit_status [OF h1 r2, of demo_platform ?errors] h3 r4 by simp
  show ?thesis
    using h1 h2 h3 h4 h5 h6 h7 m1 m2 m3 m4 v c d r2 r4 r by blast
qed

theorem exit_status_check_counterexample:
  "contains ''@bot check'' (command_text (demo_command ''@bot check'' ''contributor''))
   \<and> validate_loop demo_platform
        (fs (demo_world (demo_thread [''On review''] [] [''manifests/app.json''])
               [(''manifests/app.json'', ''{'')]))
        [''manifests/app.json''] []
       = Inr [msg_invalid_json ''manifests/app.json'' ''Expecting value'']
   \<and> validate_main demo_platform (demo_command ''@bot check'' ''contributor'')
        (demo_world (demo_thread [''On review''] [] [''manifests/app.json''])
           [(''manifests/app.json'', ''{'')])
      = (Exited 1,
         set_thread 7
           (invalidated (demo_command ''@bot check'' ''contributor'')
              [msg_invalid_json ''manifests/app.json'' ''Expecting value'']
              (demo_thread [''On review''] [] [''manifests/app.json'']))
           (demo_world (demo_thread [''On review''] [] [''manifests/app.json''])
              [(''manifests/app.json'', ''{'')]))
   \<and> main demo_platform (demo_command ''@bot check'' ''contributor'')
        (demo_world (demo_thread [''On review''] [] [''manifests/app.json''])
           [(''manifests/app.json'', ''{'')])
      = (Exited 0,
         set_thread 7
           (reply (demo_command ''@bot check'' ''contributor'') msg_completed_with_errors
              (invalidated (demo_command ''@bot check'' ''contributor'')
                 [msg_invalid_json ''manifests/app.json'' ''Expecting value'']
                 (reply (demo_command ''@bot check'' ''contributor'') (msg_running ''contributor'')
                    (demo_thread [''On review''] [] [''manifests/app.json'']))))
           (demo_world (demo_thread [''On review''] [] [''manifests/app.json''])
              [(''manifests/app.json'', ''{'')]))"
proof -
  let ?e = "demo_command ''@bot check'' ''contributor''"
  let ?t = "demo_thread [''On review''] [] [''manifests/app.json'']"
  let ?w = "demo_world ?t [(''manifests/app.json'', ''{'')]"
  let ?errors = "[msg_invalid_json ''manifests/app.json'' ''Expecting value'']"
  have h1: "env_ok ?e" by (simp add: demo_simps)
  have h2: "threads ?w 7 = Some ?t" by (simp add: demo_simps)
  have h3: "validates ?e 7" by (simp add: validates_def demo_simps)
  have h4: "filter is_manifest (files ?t) = [''manifests/app.json'']"
    by (simp add: demo_thread_def manifest_simps)
  then have h4': "filter is_manifest (files ?t) \<noteq> []" by simp
  have h5: "validate_loop demo_platform (fs ?w) [''manifests/app.json''] [] = Inr ?errors"
    by (simp add: demo_world_def demo_broken_manifest del: map_of.simps)
  then have h5': "validate_loop demo_platform (fs ?w) (filter is_manifest (files ?t)) [] = Inr ?errors"
    using h4 by simp
  have h6: "get_pr_number_from_event ?e = Some 7" by (simp add: demo_simps)
  have h7: "contains ''@bot check'' (command_text ?e)" by (simp add: demo_simps)
  have u: "command_user ?e = ''contributor''" by (simp add: demo_simps)
  have ne: "?errors \<noteq> []" by simp
  have v: "validate_main demo_platform ?e ?w = (Exited 1, set_thread 7 (invalidated ?e ?errors ?t) ?w)"
    using validate_main_exit [OF h3 h2 h4' h5'] by simp
  have m: "main demo_platform ?e ?w
      = (Exited 0, set_thread 7 (reply ?e msg_completed_with_errors
           (invalidated ?e ?errors (reply ?e (msg_running ''contributor'') ?t))) ?w)"
    using check_with_defects [OF h1 h6 h2 h7 h3 h4' h5' ne] u by simp
  show ?thesis
    using h7 h5 v m by blast
qed

section \<open>Required fields\<close>




section \<open>Manifests that do not parse\<close>

text \<open>
  C7. A changed manifest whose text does not parse adds exactly one defect, the invalid-JSON
  message with the parser's error, and nothing else is checked on it. When the loop body
  returns for every changed manifest, the run ends with status 1 and one report holding the
  defects of all of them in order, the parse defect among them. When another changed
  manifest parses to something that is not an object (a list, a string, a number, a boolean
  or \<open>null\<close>), the run ends in an uncaught exception instead: nothing is posted, no label
  changes, and the parse defect is not reported.
\<close>

theorem parse_failure_accumulated:
  assumes "validates e n" and "threads w n = Some t"
    and "p \<in> set (files t)" and "is_manifest p"
    and "fs w p = Some data" and "json_parse P data = Inl x"
  shows "validate_one P (fs w) p = Inr [msg_invalid_json p x]
       \<and> ((\<forall>q \<in> set (filter is_manifest (files t)). \<exists>es. validate_one P (fs w) q = Inr es) \<longrightarrow>
            validate_main P e w
              = (Exited 1,
                 set_thread n
                   (invalidated e (concat (map (defects_of P (fs w)) (filter is_manifest (files t)))) t) w)
            \<and> msg_invalid_json p x
                 \<in> set (concat (map (defects_of P (fs w)) (filter is_manifest (files t)))))
       \<and> (q \<in> set (files t) \<and> is_manifest q \<and> fs w q = Some other
           \<and> json_parse P other = Inr m \<and> \<not> is_dict m \<longrightarrow>
            (\<exists>y. validate_main P e w = (Uncaught y, w)))"
proof (intro conjI impI)
  let ?ms = "filter is_manifest (files t)"
  have one: "validate_one P (fs w) p = Inr [msg_invalid_json p x]"
    using assms(5,6) by (rule validate_one_unparseable)
  show "validate_one P (fs w) p = Inr [msg_invalid_json p x]" by (rule one)
  have pm: "p \<in> set ?ms" using assms(3,4) by simp
  have ne: "?ms \<noteq> []"
  proof
    assume "?ms = []"
    with pm show False by (simp only: set_simps empty_iff)
  qed
  note loop = validate_main_loop [OF assms(1,2) ne, of P]
  have mem: "msg_invalid_json p x \<in> set (concat (map (defects_of P (fs w)) ?ms))"
    using pm one by (auto simp: defects_of_def intro!: bexI [of _ p])
  {
    assume all: "\<forall>q \<in> set ?ms. \<exists>es. validate_one P (fs w) q = Inr es"
    have "validate_loop P (fs w) ?ms [] = Inr (concat (map (defects_of P (fs w)) ?ms))"
      using validate_loop_all [OF all, of "[]"] by simp
    moreover have "concat (map (defects_of P (fs w)) ?ms) \<noteq> []"
      using mem by auto
    ultimately show "validate_main P e w
        = (Exited 1, set_thread n (invalidated e (concat (map (defects_of P (fs w)) ?ms)) t) w)"
      using loop report_failure [OF assms(2), of "concat (map (defects_of P (fs w)) ?ms)" e]
      by simp
    show "msg_invalid_json p x \<in> set (concat (map (defects_of P (fs w)) ?ms))"
      by (rule mem)
  }
  {
    assume h: "q \<in> set (files t) \<and> is_manifest q \<and> fs w q = Some other
           \<and> json_parse P other = Inr m \<and> \<not> is_dict m"
    then obtain y where y: "validate_one P (fs w) q = Inl y"
      using validate_one_not_dict [of "fs w" q other P m] by blast
    have "q \<in> set ?ms" using h by simp
    from validate_loop_Inl [OF this y, of "[]"]
    obtain z where "validate_loop P (fs w) ?ms [] = Inl z" by blast
    then have "validate_main P e w = (Uncaught z, w)" using loop by simp
    then show "\<exists>y. validate_main P e w = (Uncaught y, w)" by blast
  }
qed

lemma demo_bad_with_app:
  "validate_one demo_platform (map_of [(''manifests/bad.json'', ''{''), (''manifests/app.json'', demo_manifest_text),
               (''icons/app.png'', ''png 32x32'')]) ''manifests/bad.json''
     = Inr [msg_invalid_json ''manifests/bad.json'' ''Expecting value'']"
  "validate_one demo_platform (map_of [(''manifests/bad.json'', ''{''), (''manifests/app.json'', demo_manifest_text),
               (''icons/app.png'', ''png 32x32'')]) ''manifests/app.json'' = Inr []"
  by (simp_all add: validate_simps)

lemma demo_bad_with_list:
  "validate_one demo_platform (map_of [(''manifests/bad.json'', ''{''), (''manifests/list.json'', ''[]'')]) ''manifests/bad.json''
     = Inr [msg_invalid_json ''manifests/bad.json'' ''Expecting value'']"
  "validate_one demo_platform (map_of [(''manifests/bad.json'', ''{''), (''manifests/list.json'', ''[]'')]) ''manifests/list.json'' = Inl AttributeError"
  by (simp_all add: validate_simps)

theorem parse_failure_accumulated_witness:
  "validates demo_pull_request 7
   \<and> threads (demo_world (demo_thread [] [] [''manifests/bad.json'', ''manifests/app.json'', ''icons/app.png''])
              [(''manifests/bad.json'', ''{''), (''manifests/app.json'', demo_manifest_text),
               (''icons/app.png'', ''png 32x32'')]) 7
       = Some (demo_thread [] [] [''manifests/bad.json'', ''manifests/app.json'', ''icons/app.png''])
   \<and> ''manifests/bad.json'' \<in> set (files (demo_thread [] [] [''manifests/bad.json'', ''manifests/app.json'', ''icons/app.png'']))
   \<and> is_manifest ''manifests/bad.json''
   \<and> fs (demo_world (demo_thread [] [] [''manifests/bad.json'', ''manifests/app.json'', ''icons/app.png''])
              [(''manifests/bad.json'', ''{''), (''manifests/app.json'', demo_manifest_text),
               (''icons/app.png'', ''png 32x32'')]) ''manifests/bad.json'' = Some ''{''
   \<and> json_parse demo_platform ''{'' = Inl ''Expecting value''
   \<and> validate_one demo_platform
         (fs (demo_world (demo_thread [] [] [''manifests/bad.json'', ''manifests/app.json'', ''icons/app.png''])
              [(''manifests/bad.json'', ''{''), (''manifests/app.json'', demo_manifest_text),
               (''icons/app.png'', ''png 32x32'')]))
         ''manifests/bad.json''
       = Inr [msg_invalid_json ''manifests/bad.json'' ''Expecting value'']
   \<and> validate_main demo_platform demo_pull_request
         (demo_world (demo_thread [] [] [''manifests/bad.json'', ''manifests/app.json'', ''icons/app.png''])
              [(''manifests/bad.json'', ''{''), (''manifests/app.json'', demo_manifest_text),
               (''icons/app.png'', ''png 32x32'')])
       = (Exited 1,
          set_thread 7
            (invalidated demo_pull_request [msg_invalid_json ''manifests/bad.json'' ''Expecting value'']
               (demo_thread [] [] [''manifests/bad.json'', ''manifests/app.json'', ''icons/app.png'']))
            (demo_world (demo_thread [] [] [''manifests/bad.json'', ''manifests/app.json'', ''icons/app.png''])
              [(''manifests/bad.json'', ''{''), (''manifests/app.json'', demo_manifest_text),
               (''icons/app.png'', ''png 32x32'')]))
   \<and> threads (demo_world (demo_thread [] [] [''manifests/bad.json'', ''manifests/list.json''])
              [(''manifests/bad.json'', ''{''), (''manifests/list.json'', ''[]'')]) 7
       = Some (demo_thread [] [] [''manifests/bad.json'', ''manifests/list.json''])
   \<and> ''manifests/list.json'' \<in> set (files (demo_thread [] [] [''manifests/bad.json'', ''manifests/list.json'']))
   \<and> is_manifest ''manifests/list.json''
   \<and> fs (demo_world (demo_thread [] [] [''manifests/bad.json'', ''manifests/list.json''])
              [(''manifests/bad.json'', ''{''), (''manifests/list.json'', ''[]'')]) ''manifests/list.json'' = Some ''[]''
   \<and> json_parse demo_platform ''[]'' = Inr (JArr [])
   \<and> validate_main demo_platform demo_pull_request
         (demo_world (demo_thread [] [] [''manifests/bad.json'', ''manifests/list.json''])
              [(''manifests/bad.json'', ''{''), (''manifests/list.json'', ''[]'')])
       = (Uncaught AttributeError,
          (demo_world (demo_thread [] [] [''manifests/bad.json'', ''manifests/list.json''])
              [(''manifests/bad.json'', ''{''), (''manifests/list.json'', ''[]'')]))"
proof -
  let ?v = "demo_pull_request"
  let ?tA = "(demo_thread [] [] [''manifests/bad.json'', ''manifests/app.json'', ''icons/app.png''])"
  let ?dA = "[(''manifests/bad.json'', ''{''), (''manifests/app.json'', demo_manifest_text),
               (''icons/app.png'', ''png 32x32'')]"
  let ?wA = "demo_world ?tA ?dA"
  let ?tB = "(demo_thread [] [] [''manifests/bad.json'', ''manifests/list.json''])"
  let ?dB = "[(''manifests/bad.json'', ''{''), (''manifests/list.json'', ''[]'')]"
  let ?wB = "demo_world ?tB ?dB"
  let ?bad = "''manifests/bad.json''"
  let ?d = "msg_invalid_json ''manifests/bad.json'' ''Expecting value''"
  have h1: "validates ?v 7" by (simp add: validates_def demo_simps)
  have a2: "threads ?wA 7 = Some ?tA" by (simp add: demo_simps)
  have a3: "?bad \<in> set (files ?tA)" by (simp add: demo_thread_def)
  have h4: "is_manifest ?bad" by (simp add: manifest_simps)
  have a5: "fs ?wA ?bad = Some ''{''" by (simp add: demo_world_def)
  have h6: "json_parse demo_platform ''{'' = Inl ''Expecting value''"
    by (simp add: demo_platform_def demo_manifest_text_def demo_null_name_text_def
        demo_ledger_text_def demo_partial_text_def)
  have fA: "fs ?wA = map_of ?dA" by (simp add: demo_world_def del: map_of.simps)
  have mA: "filter is_manifest (files ?tA) = [?bad, ''manifests/app.json'']"
    by (simp add: demo_thread_def manifest_simps)
  have allA: "\<forall>q \<in> set (filter is_manifest (files ?tA)).
      \<exists>es. validate_one demo_platform (fs ?wA) q = Inr es"
    unfolding mA fA by (simp add: demo_bad_with_app del: map_of.simps)
  have cA: "concat (map (defects_of demo_platform (fs ?wA)) (filter is_manifest (files ?tA))) = [?d]"
    unfolding mA fA by (simp add: defects_of_def demo_bad_with_app del: map_of.simps)
  note instA = parse_failure_accumulated [OF h1 a2 a3 h4 a5 h6]
  from instA have oneA: "validate_one demo_platform (fs ?wA) ?bad = Inr [?d]" by blast
  from instA allA have "validate_main demo_platform ?v ?wA
      = (Exited 1,
         set_thread 7
           (invalidated ?v (concat (map (defects_of demo_platform (fs ?wA))
              (filter is_manifest (files ?tA)))) ?tA) ?wA)"
    by blast
  then have runA: "validate_main demo_platform ?v ?wA
      = (Exited 1, set_thread 7 (invalidated ?v [?d] ?tA) ?wA)"
    unfolding cA .
  have b2: "threads ?wB 7 = Some ?tB" by (simp add: demo_simps)
  have b3: "?bad \<in> set (files ?tB)" by (simp add: demo_thread_def)
  have b3': "''manifests/list.json'' \<in> set (files ?tB)" by (simp add: demo_thread_def)
  have b4: "is_manifest ''manifests/list.json''" by (simp add: manifest_simps)
  have b5: "fs ?wB ?bad = Some ''{''" by (simp add: demo_world_def)
  have b5': "fs ?wB ''manifests/list.json'' = Some ''[]''" by (simp add: demo_world_def)
  have b6: "json_parse demo_platform ''[]'' = Inr (JArr [])"
    by (simp add: demo_platform_def demo_manifest_text_def demo_null_name_text_def
        demo_ledger_text_def demo_partial_text_def)
  have nd: "\<not> is_dict (JArr [])" by simp
  note instB = parse_failure_accumulated [OF h1 b2 b3 h4 b5 h6, of "''manifests/list.json''" "''[]''" "JArr []"]
  from instB b3' b4 b5' b6 nd obtain y where y: "validate_main demo_platform ?v ?wB = (Uncaught y, ?wB)"
    by blast
  have fB: "fs ?wB = map_of ?dB" by (simp add: demo_world_def del: map_of.simps)
  have mB: "filter is_manifest (files ?tB) = [?bad, ''manifests/list.json'']"
    by (simp add: demo_thread_def manifest_simps)
  then have neB: "filter is_manifest (files ?tB) \<noteq> []" by simp
  have "validate_loop demo_platform (fs ?wB) (filter is_manifest (files ?tB)) [] = Inl AttributeError"
    unfolding mB fB by (simp add: demo_bad_with_list del: map_of.simps)
  then have "validate_main demo_platform ?v ?wB = (Uncaught AttributeError, ?wB)"
    using validate_main_loop [OF h1 b2 neB, of demo_platform] by simp
  with y have runB: "validate_main demo_platform ?v ?wB = (Uncaught AttributeError, ?wB)"
    by simp
  show ?thesis
    using h1 a2 a3 h4 a5 h6 oneA runA b2 b3' b4 b5' b6 runB by blast
qed

section \<open>The icon\<close>





end
